theory Spec2Isabelle
  imports Complex_Main
begin

section \<open>Strings of the runtime\<close>

text \<open>
  A JavaScript string is a sequence of UTF-16 code units. The model keeps the code units as
  natural numbers, so that characters above U+00FF exist in it; \<open>js\<close> turns a literal of
  the theory into such a string.
\<close>

type_synonym jsstring = "nat list"

definition js :: "string \<Rightarrow> jsstring" where
  "js s = map of_char s"

text \<open>\<open>String.prototype.includes\<close>: some position of the string starts the searched text.\<close>

fun startsWith :: "jsstring \<Rightarrow> jsstring \<Rightarrow> bool" where
  "startsWith s [] = True"
| "startsWith [] (k # ks) = False"
| "startsWith (c # cs) (k # ks) = (c = k \<and> startsWith cs ks)"

fun includes_str :: "jsstring \<Rightarrow> jsstring \<Rightarrow> bool" where
  "includes_str [] k = startsWith [] k"
| "includes_str (c # cs) k = (startsWith (c # cs) k \<or> includes_str cs k)"

text \<open>\<open>Array.prototype.some\<close>.\<close>

fun some :: "('a \<Rightarrow> bool) \<Rightarrow> 'a list \<Rightarrow> bool" where
  "some p [] = False"
| "some p (x # xs) = (p x \<or> some p xs)"

text \<open>
  \<open>String.prototype.toLowerCase\<close> is the runtime's Unicode case conversion. The functions
  that call it take it as the parameter \<open>lc\<close>, and what is proved of them holds for every
  such conversion. \<open>asciiLower\<close> is the conversion on strings of ASCII characters, where
  only \<open>A\<close> to \<open>Z\<close> change; it is the instance used on concrete inputs.
\<close>

definition asciiLower :: "jsstring \<Rightarrow> jsstring" where
  "asciiLower s = map (\<lambda>c. if 65 \<le> c \<and> c \<le> 90 then c + 32 else c) s"

section \<open>Query classification\<close>

datatype queryType = Sql | Document | Hybrid

definition sqlKeywords :: "jsstring list" where
  "sqlKeywords = map js [''count'', ''average'', ''sum'', ''group by'', ''order by'', ''salary'',
     ''department'', ''employees'', ''how many'', ''list all'', ''show me all'']"

definition docKeywords :: "jsstring list" where
  "docKeywords = map js [''skills'', ''experience'', ''resume'', ''qualifications'',
     ''background'', ''python'', ''java'', ''programming'', ''certification'']"

definition classifyQuery :: "(jsstring \<Rightarrow> jsstring) \<Rightarrow> jsstring \<Rightarrow> queryType" where
  "classifyQuery lc query =
     (let lowerQuery = lc query;
          hasSQLKeywords = some (\<lambda>keyword. includes_str lowerQuery keyword) sqlKeywords;
          hasDocKeywords = some (\<lambda>keyword. includes_str lowerQuery keyword) docKeywords
      in if hasSQLKeywords \<and> hasDocKeywords then Hybrid
         else if hasDocKeywords then Document
         else Sql)"

text \<open>
  What the specification calls containing a keyword of a set: the text splits into a part
  before the keyword, the keyword, and a part after it.
\<close>

definition containsKeyword :: "jsstring list \<Rightarrow> jsstring \<Rightarrow> bool" where
  "containsKeyword kws s = (\<exists>k \<in> set kws. \<exists>pre post. s = pre @ k @ post)"

section \<open>SQL synthesis\<close>

text \<open>
  The discovered schema, as the specification describes it: tables with their columns.
  The source types it \<open>any\<close> and stores it as JSON.
\<close>

record tableDescriptor =
  tableName :: jsstring
  columns :: "jsstring list"

type_synonym schema = "tableDescriptor list"

definition countSQL :: jsstring where
  "countSQL = js ''SELECT COUNT(*) as employee_count FROM employees;''"

definition avgByDeptSQL :: jsstring where
  "avgByDeptSQL =
     js ''SELECT d.dept_name, AVG(e.annual_salary) as avg_salary '' @ [10] @
     js ''              FROM employees e '' @ [10] @
     js ''              JOIN departments d ON e.dept_id = d.dept_id '' @ [10] @
     js ''              GROUP BY d.dept_name;''"

definition avgSQL :: jsstring where
  "avgSQL = js ''SELECT AVG(annual_salary) as average_salary FROM employees;''"

definition topPerDeptSQL :: jsstring where
  "topPerDeptSQL =
     js ''SELECT d.dept_name, e.full_name, e.annual_salary'' @ [10] @
     js ''              FROM employees e'' @ [10] @
     js ''              JOIN departments d ON e.dept_id = d.dept_id'' @ [10] @
     js ''              WHERE e.annual_salary = ('' @ [10] @
     js ''                SELECT MAX(e2.annual_salary) '' @ [10] @
     js ''                FROM employees e2 '' @ [10] @
     js ''                WHERE e2.dept_id = e.dept_id'' @ [10] @
     js ''              )'' @ [10] @
     js ''              ORDER BY e.annual_salary DESC;''"

definition topSQL :: jsstring where
  "topSQL = js ''SELECT full_name, annual_salary FROM employees ORDER BY annual_salary DESC LIMIT 5;''"

definition hiredThisYearSQL :: jsstring where
  "hiredThisYearSQL =
     js ''SELECT full_name, position, join_date '' @ [10] @
     js ''            FROM employees '' @ [10] @
     js ''            WHERE EXTRACT(YEAR FROM join_date) = EXTRACT(YEAR FROM CURRENT_DATE);''"

definition defaultSQL :: jsstring where
  "defaultSQL = js ''SELECT * FROM employees LIMIT 10;''"

text \<open>
  In the statements that span several lines in the source, \<open>[10]\<close> is the line break.
\<close>

definition generateSQL :: "(jsstring \<Rightarrow> jsstring) \<Rightarrow> jsstring \<Rightarrow> schema \<Rightarrow> jsstring" where
  "generateSQL lc query schema =
     (let lowerQuery = lc query
      in if includes_str lowerQuery (js ''how many employees'') then countSQL
         else if includes_str lowerQuery (js ''average salary'') then
           (if includes_str lowerQuery (js ''department'') then avgByDeptSQL else avgSQL)
         else if includes_str lowerQuery (js ''highest paid'') then
           (if includes_str lowerQuery (js ''each department'') then topPerDeptSQL else topSQL)
         else if includes_str lowerQuery (js ''hired this year'') then hiredThisYearSQL
         else defaultSQL)"

text \<open>The phrases of the templates, and whether one of them occurs in the lowered text.\<close>

definition templatePhrases :: "jsstring list" where
  "templatePhrases = map js [''how many employees'', ''average salary'', ''highest paid'',
     ''hired this year'']"

definition templateMatches :: "(jsstring \<Rightarrow> jsstring) \<Rightarrow> jsstring \<Rightarrow> bool" where
  "templateMatches lc query = some (\<lambda>p. includes_str (lc query) p) templatePhrases"

text \<open>Whether a schema has a table of the given name.\<close>

definition hasTable :: "schema \<Rightarrow> jsstring \<Rightarrow> bool" where
  "hasTable schema t = some (\<lambda>d. tableName d = t) schema"

section \<open>Cache keys\<close>

datatype error =
    InvalidCharacterError
  | Error jsstring
  | TypeError jsstring

text \<open>
  \<open>btoa\<close> of the platform: it throws on a string with a code unit above 255, and is the
  Base64 encoding (RFC 4648, padded with \<open>=\<close>) of the code units as bytes otherwise.
\<close>

definition base64Alphabet :: jsstring where
  "base64Alphabet = js ''ABCDEFGHIJKLMNOPQRSTUVWXYZabcdefghijklmnopqrstuvwxyz0123456789+/''"

definition sextet :: "nat \<Rightarrow> nat" where
  "sextet i = base64Alphabet ! i"

fun base64 :: "nat list \<Rightarrow> jsstring" where
  "base64 [] = []"
| "base64 [a] = [sextet (a div 4), sextet ((a mod 4) * 16), 61, 61]"
| "base64 [a, b] =
     [sextet (a div 4), sextet ((a mod 4) * 16 + b div 16), sextet ((b mod 16) * 4), 61]"
| "base64 (a # b # c # rest) =
     [sextet (a div 4), sextet ((a mod 4) * 16 + b div 16),
      sextet ((b mod 16) * 4 + c div 64), sextet (c mod 64)] @ base64 rest"

definition latin1 :: "jsstring \<Rightarrow> bool" where
  "latin1 s = (\<forall>c \<in> set s. c \<le> 255)"

definition btoa :: "jsstring \<Rightarrow> error + jsstring" where
  "btoa s = (if latin1 s then Inr (base64 s) else Inl InvalidCharacterError)"

text \<open>The characters that the pattern \<open>[^a-zA-Z0-9]\<close> leaves in place.\<close>

definition alphanumeric :: "nat \<Rightarrow> bool" where
  "alphanumeric c = ((97 \<le> c \<and> c \<le> 122) \<or> (65 \<le> c \<and> c \<le> 90) \<or> (48 \<le> c \<and> c \<le> 57))"

text \<open>The template literal \<open>`${query}-${databaseId}-${userId}`\<close>.\<close>

definition keyContent :: "jsstring \<Rightarrow> jsstring \<Rightarrow> jsstring \<Rightarrow> jsstring" where
  "keyContent query databaseId userId = query @ js ''-'' @ databaseId @ js ''-'' @ userId"

definition generateCacheKey :: "jsstring \<Rightarrow> jsstring \<Rightarrow> jsstring \<Rightarrow> error + jsstring" where
  "generateCacheKey query databaseId userId =
     (case btoa (keyContent query databaseId userId) of
        Inl e \<Rightarrow> Inl e
      | Inr encoded \<Rightarrow> Inr (take 32 (filter alphanumeric encoded)))"

section \<open>Query results\<close>

datatype jsvalue = Num int | Str jsstring

type_synonym row = "(jsstring \<times> jsvalue) list"

record documentResult =
  res_id :: jsstring
  res_text :: jsstring
  res_similarity :: real
  res_document :: jsstring
  res_metadata :: jsstring

record performanceMetrics =
  responseTime :: int
  cacheHit :: bool
  resultsCount :: nat

text \<open>An optional property of the source's interface is an \<open>option\<close>: \<open>None\<close> is absent.\<close>

record queryResult =
  queryType :: queryType
  sqlResults :: "row list option"
  documentResults :: "documentResult list option"
  generatedSQL :: "jsstring option"
  performanceMetrics :: performanceMetrics
  sources :: "jsstring list"

section \<open>The stored tables\<close>

record databaseRow =
  db_id :: jsstring
  db_user_id :: "jsstring option"
  db_schema_data :: schema

record documentRow =
  doc_id :: jsstring
  doc_user_id :: "jsstring option"
  doc_filename :: jsstring

record chunkRow =
  chunk_id :: jsstring
  chunk_document_id :: "jsstring option"
  chunk_text :: jsstring
  chunk_embedding :: "real list option"
  chunk_metadata :: jsstring

record cacheRow =
  cache_query_text :: jsstring
  cache_results :: queryResult
  cache_expires_at :: int
  cache_hit_count :: int
  cache_last_accessed :: int

record historyRow =
  h_user_id :: jsstring
  h_query_text :: jsstring
  h_query_type :: queryType
  h_generated_sql :: "jsstring option"
  h_results_sql :: "row list option"
  h_results_documents :: "documentResult list option"
  h_performance_metrics :: performanceMetrics
  h_cache_key :: jsstring

text \<open>
  The tables of the migration that the query function reads and writes. The column
  \<open>cache_key\<close> of the cache table is unique, so that table is a map from the key to the
  rest of the row; times are milliseconds since the epoch.
\<close>

record database =
  discovered_databases :: "databaseRow list"
  documents :: "documentRow list"
  document_chunks :: "chunkRow list"
  query_cache :: "jsstring \<rightharpoonup> cacheRow"
  query_history :: "historyRow list"

section \<open>The vector search function of the migration\<close>

record matchRow =
  m_id :: jsstring
  m_document_id :: "jsstring option"
  m_chunk_text :: jsstring
  m_similarity :: real
  m_filename :: jsstring
  m_metadata :: jsstring

text \<open>The join of the chunks with their documents, \<open>dc.document_id = d.id\<close>.\<close>

definition joined :: "database \<Rightarrow> (chunkRow \<times> documentRow) list" where
  "joined db = concat (map (\<lambda>dc. map (\<lambda>d. (dc, d))
       (filter (\<lambda>d. chunk_document_id dc = Some (doc_id d)) (documents db))) (document_chunks db))"

text \<open>
  \<open>distance\<close> is the cosine distance operator \<open><=>\<close> of the vector extension. A chunk without
  an embedding has no distance, and no comparison on it holds.
\<close>

definition withDistance :: "(real list \<Rightarrow> real list \<Rightarrow> real) \<Rightarrow> real list
    \<Rightarrow> (chunkRow \<times> documentRow) list \<Rightarrow> (chunkRow \<times> documentRow \<times> real) list" where
  "withDistance distance query_embedding rows = List.map_filter (\<lambda>(dc, d).
       (case chunk_embedding dc of None \<Rightarrow> None | Some e \<Rightarrow> Some (dc, d, distance e query_embedding))) rows"

definition matchRowOf :: "chunkRow \<times> documentRow \<times> real \<Rightarrow> matchRow" where
  "matchRowOf t = (case t of (dc, d, delta) \<Rightarrow>
     \<lparr>m_id = chunk_id dc, m_document_id = chunk_document_id dc, m_chunk_text = chunk_text dc,
      m_similarity = 1 - delta, m_filename = doc_filename d, m_metadata = chunk_metadata dc\<rparr>)"

text \<open>
  The rows that the clauses \<open>FROM\<close>, \<open>WHERE\<close>, \<open>ORDER BY\<close> and \<open>LIMIT\<close> of the query in
  the function leave, each with its distance, when every name that the query writes
  without a qualifier is read as the variable of the function. Numbers are real numbers
  here, and the search goes through all rows.
\<close>

definition matchedRows :: "(real list \<Rightarrow> real list \<Rightarrow> real) \<Rightarrow> database \<Rightarrow> real list
    \<Rightarrow> real \<Rightarrow> nat \<Rightarrow> jsstring option \<Rightarrow> (chunkRow \<times> documentRow \<times> real) list" where
  "matchedRows distance db query_embedding match_threshold match_count user_id =
     take match_count
       (sort_key (\<lambda>(dc, d, delta). delta)
         (filter (\<lambda>(dc, d, delta). (user_id = None \<or> doc_user_id d = user_id)
                                   \<and> 1 - delta > match_threshold)
           (withDistance distance query_embedding (joined db))))"

text \<open>
  The function is written in PL/pgSQL without a \<open>#variable_conflict\<close> option. Its
  parameters and the columns of its result table are variables of the function; a name of
  the query that is written without a qualifier and is both such a variable and a column of
  a table of the \<open>FROM\<close> clause is rejected when the query is run (error 42702). The lists
  are those of the migration: the variables of \<open>match_documents\<close>, the columns of the chunk
  table and of the document table, and the unqualified names of the query in the order in
  which they occur.
\<close>

datatype sqlError = AmbiguousColumn jsstring

definition functionVariables :: "jsstring list" where
  "functionVariables = map js [''query_embedding'', ''match_threshold'', ''match_count'',
     ''user_id'', ''id'', ''document_id'', ''chunk_text'', ''similarity'', ''filename'',
     ''metadata'']"

definition fromColumns :: "jsstring list" where
  "fromColumns = map js [''id'', ''document_id'', ''chunk_text'', ''chunk_index'', ''embedding'',
     ''metadata'', ''created_at'',
     ''id'', ''user_id'', ''filename'', ''file_type'', ''file_size'', ''content'', ''metadata'',
     ''status'', ''upload_progress'', ''created_at'', ''processed_at'']"

definition unqualifiedNames :: "jsstring list" where
  "unqualifiedNames = map js [''query_embedding'', ''user_id'', ''user_id'', ''query_embedding'',
     ''match_threshold'', ''query_embedding'', ''match_count'']"

definition ambiguous :: "jsstring \<Rightarrow> bool" where
  "ambiguous n = (n \<in> set functionVariables \<and> n \<in> set fromColumns)"

definition match_documents :: "(real list \<Rightarrow> real list \<Rightarrow> real) \<Rightarrow> database \<Rightarrow> real list
    \<Rightarrow> real \<Rightarrow> nat \<Rightarrow> jsstring option \<Rightarrow> sqlError + matchRow list" where
  "match_documents distance db query_embedding match_threshold match_count user_id =
     (case filter ambiguous unqualifiedNames of
        n # ns \<Rightarrow> Inl (AmbiguousColumn n)
      | [] \<Rightarrow> Inr (map matchRowOf
          (matchedRows distance db query_embedding match_threshold match_count user_id)))"

section \<open>The client and its failures\<close>

text \<open>
  The handler builds its client with \<open>createClient\<close> of \<open>@supabase/supabase-js@2\<close>. An
  awaited query, insert, upsert or remote call on that client resolves: with its data, or
  with an error value and no data, which the source never inspects. It does not reject.
  Which of the two happens to each call of one request is part of the environment of that
  request, together with the readings of the clock and the random numbers that
  \<open>generateEmbedding\<close> draws.
\<close>

datatype fault = NoFault | ErrorResult

record env =
  toLowerCase :: "jsstring \<Rightarrow> jsstring"
  cosineDistance :: "real list \<Rightarrow> real list \<Rightarrow> real"
  randomEmbedding :: "real list"
  now_start :: int
  now_check :: int
  now_hit :: int
  now_end :: int
  now_store :: int
  fault_checkCache :: fault
  fault_updateCacheHit :: fault
  fault_schema :: fault
  fault_rpc :: fault
  fault_cacheResult :: fault
  fault_history :: fault

definition awaited :: "fault \<Rightarrow> 'a option \<Rightarrow> 'a option" where
  "awaited f data = (case f of NoFault \<Rightarrow> data | ErrorResult \<Rightarrow> None)"

definition awaitedWrite :: "fault \<Rightarrow> database \<Rightarrow> database \<Rightarrow> database" where
  "awaitedWrite f db written = (case f of NoFault \<Rightarrow> written | ErrorResult \<Rightarrow> db)"

text \<open>The members of the client object; a call of any other name is a call of \<open>undefined\<close>.\<close>

definition clientMembers :: "jsstring list" where
  "clientMembers = map js [''from'', ''schema'', ''rpc'', ''auth'', ''storage'', ''functions'',
     ''realtime'', ''channel'', ''getChannels'', ''removeChannel'', ''removeAllChannels'']"

section \<open>The two retrieval paths\<close>

definition mockEmployee :: "int \<Rightarrow> string \<Rightarrow> string \<Rightarrow> int \<Rightarrow> string \<Rightarrow> row" where
  "mockEmployee n name pos salary dept =
     [(js ''emp_id'', Num n), (js ''full_name'', Str (js name)), (js ''position'', Str (js pos)),
      (js ''annual_salary'', Num salary), (js ''dept_name'', Str (js dept))]"

definition mockEmployees :: "row list" where
  "mockEmployees =
     [mockEmployee 1 ''John Smith'' ''Software Engineer'' 95000 ''Engineering'',
      mockEmployee 2 ''Sarah Johnson'' ''Data Scientist'' 110000 ''Data Science'',
      mockEmployee 3 ''Mike Chen'' ''Product Manager'' 105000 ''Product'',
      mockEmployee 4 ''Emily Davis'' ''UX Designer'' 85000 ''Design'',
      mockEmployee 5 ''David Wilson'' ''DevOps Engineer'' 98000 ''Engineering'']"

text \<open>
  \<open>executeSQL\<close> looks the statement up in a table of two mock answers. Its argument is
  always a statement of \<open>generateSQL\<close>, none of which names an inherited property of the
  table object.
\<close>

definition executeSQL :: "jsstring \<Rightarrow> schema \<Rightarrow> row list" where
  "executeSQL sql schema =
     (if sql = countSQL then [[(js ''employee_count'', Num 150)]]
      else if sql = avgSQL then [[(js ''average_salary'', Num 87500)]]
      else mockEmployees)"

definition generateEmbedding :: "env \<Rightarrow> jsstring \<Rightarrow> real list" where
  "generateEmbedding env text = randomEmbedding env"

text \<open>
  The selection of the schema: the rows with the given id and owner, and \<open>single()\<close>, which
  has data only when exactly one row is selected. A request without \<open>databaseId\<close> selects
  by an id that no row has.
\<close>

definition selectSchema :: "database \<Rightarrow> jsstring option \<Rightarrow> jsstring \<Rightarrow> schema option" where
  "selectSchema db databaseId userId =
     (case databaseId of
        None \<Rightarrow> None
      | Some i \<Rightarrow>
          (case filter (\<lambda>r. db_id r = i \<and> db_user_id r = Some userId) (discovered_databases db) of
             [r] \<Rightarrow> Some (db_schema_data r)
           | _ \<Rightarrow> None))"

definition processSQLQuery :: "env \<Rightarrow> database \<Rightarrow> jsstring \<Rightarrow> jsstring option \<Rightarrow> jsstring
    \<Rightarrow> error + queryResult" where
  "processSQLQuery env db query databaseId userId =
     (case awaited (fault_schema env) (selectSchema db databaseId userId) of
        None \<Rightarrow> Inl (Error (js ''Database not found''))
      | Some schema_data \<Rightarrow>
          (let sql = generateSQL (toLowerCase env) query schema_data;
               rows = executeSQL sql schema_data
           in Inr \<lparr>queryType = Sql, sqlResults = Some rows, documentResults = None,
                   generatedSQL = Some sql,
                   performanceMetrics =
                     \<lparr>responseTime = 0, cacheHit = False, resultsCount = length rows\<rparr>,
                   sources = [js ''database'']\<rparr>))"

definition documentResultOf :: "matchRow \<Rightarrow> documentResult" where
  "documentResultOf chunk =
     \<lparr>res_id = m_id chunk, res_text = m_chunk_text chunk, res_similarity = m_similarity chunk,
      res_document = m_filename chunk, res_metadata = m_metadata chunk\<rparr>"

text \<open>
  The remote call of \<open>match_documents\<close>: its data are the rows of the function, and there
  are none when the call fails or the function raises an error.
\<close>

definition rpcMatchDocuments :: "env \<Rightarrow> database \<Rightarrow> real list \<Rightarrow> jsstring
    \<Rightarrow> matchRow list option" where
  "rpcMatchDocuments env db queryEmbedding userId =
     awaited (fault_rpc env)
       (case match_documents (cosineDistance env) db queryEmbedding (7 / 10) 10 (Some userId) of
          Inl e \<Rightarrow> None
        | Inr rows \<Rightarrow> Some rows)"

definition processDocumentQuery :: "env \<Rightarrow> database \<Rightarrow> jsstring \<Rightarrow> jsstring
    \<Rightarrow> error + queryResult" where
  "processDocumentQuery env db query userId =
     (let queryEmbedding = generateEmbedding env query;
          chunks = rpcMatchDocuments env db queryEmbedding userId;
          docs = (case chunks of None \<Rightarrow> [] | Some cs \<Rightarrow> map documentResultOf cs)
      in Inr \<lparr>queryType = Document, sqlResults = None, documentResults = Some docs,
              generatedSQL = None,
              performanceMetrics =
                \<lparr>responseTime = 0, cacheHit = False, resultsCount = length docs\<rparr>,
              sources = map res_document docs\<rparr>)"

text \<open>\<open>x?.length || 0\<close>.\<close>

definition lengthOr0 :: "'a list option \<Rightarrow> nat" where
  "lengthOr0 x = (case x of None \<Rightarrow> 0 | Some xs \<Rightarrow> length xs)"

definition processHybridQuery :: "env \<Rightarrow> database \<Rightarrow> jsstring \<Rightarrow> jsstring option \<Rightarrow> jsstring
    \<Rightarrow> error + queryResult" where
  "processHybridQuery env db query databaseId userId =
     (case processSQLQuery env db query databaseId userId of
        Inl e \<Rightarrow> Inl e
      | Inr sqlResult \<Rightarrow>
          (case processDocumentQuery env db query userId of
             Inl e \<Rightarrow> Inl e
           | Inr docResult \<Rightarrow>
               Inr \<lparr>queryType = Hybrid, sqlResults = sqlResults sqlResult,
                    documentResults = documentResults docResult,
                    generatedSQL = generatedSQL sqlResult,
                    performanceMetrics =
                      \<lparr>responseTime = 0, cacheHit = False,
                       resultsCount = lengthOr0 (sqlResults sqlResult)
                                      + lengthOr0 (documentResults docResult)\<rparr>,
                    sources = sources sqlResult @ sources docResult\<rparr>))"

section \<open>Cache and history\<close>

definition checkCache :: "env \<Rightarrow> database \<Rightarrow> jsstring \<Rightarrow> queryResult option" where
  "checkCache env db cacheKey =
     awaited (fault_checkCache env)
       (case query_cache db cacheKey of
          None \<Rightarrow> None
        | Some r \<Rightarrow> if cache_expires_at r > now_check env then Some (cache_results r) else None)"

text \<open>
  \<open>updateCacheHit\<close> builds its update from \<open>supabaseClient.raw('hit_count + 1')\<close>. The client
  has no member \<open>raw\<close>, so that call is a call of \<open>undefined\<close>: a \<open>TypeError\<close>, thrown while
  the argument of \<open>update\<close> is built and before any request is sent.
\<close>

definition updateCacheHit :: "env \<Rightarrow> database \<Rightarrow> jsstring \<Rightarrow> error + database" where
  "updateCacheHit env db cacheKey =
     (if js ''raw'' \<in> set clientMembers then
        Inr (awaitedWrite (fault_updateCacheHit env) db
          (case query_cache db cacheKey of
             None \<Rightarrow> db
           | Some r \<Rightarrow> db\<lparr>query_cache := (query_cache db)(cacheKey \<mapsto>
                 r\<lparr>cache_hit_count := cache_hit_count r + 1,
                   cache_last_accessed := now_hit env\<rparr>)\<rparr>))
      else Inl (TypeError (js ''supabaseClient.raw is not a function'')))"

text \<open>
  The upsert of \<open>cacheResult\<close> names no conflict column, so it resolves conflicts on the
  primary key \<open>id\<close> only, and the row it sends has a fresh \<open>id\<close>. When the table has no row
  of the key the row is inserted, with the defaults of the table for the columns that the
  source does not give. When it has one, also an expired one, the insert violates the
  unique constraint of \<open>cache_key\<close>: the upsert resolves with an error value and the old
  row stays.
\<close>

definition cacheResult :: "env \<Rightarrow> database \<Rightarrow> jsstring \<Rightarrow> jsstring \<Rightarrow> queryResult
    \<Rightarrow> database" where
  "cacheResult env db cacheKey query result =
     (let expiresAt = now_store env + 5 * 60 * 1000
      in awaitedWrite (fault_cacheResult env) db
           (case query_cache db cacheKey of
              None \<Rightarrow> db\<lparr>query_cache := (query_cache db)(cacheKey \<mapsto>
                  \<lparr>cache_query_text = query, cache_results = result,
                   cache_expires_at = expiresAt, cache_hit_count = 0,
                   cache_last_accessed = now_store env\<rparr>)\<rparr>
            | Some r \<Rightarrow> db))"

definition historyRowOf :: "jsstring \<Rightarrow> jsstring \<Rightarrow> queryResult \<Rightarrow> jsstring \<Rightarrow> historyRow" where
  "historyRowOf userId query result key =
     \<lparr>h_user_id = userId, h_query_text = query, h_query_type = queryType result,
      h_generated_sql = generatedSQL result, h_results_sql = sqlResults result,
      h_results_documents = documentResults result,
      h_performance_metrics = performanceMetrics result, h_cache_key = key\<rparr>"

definition storeQueryHistory :: "env \<Rightarrow> database \<Rightarrow> jsstring \<Rightarrow> jsstring \<Rightarrow> queryResult
    \<Rightarrow> error + database" where
  "storeQueryHistory env db userId query result =
     (case generateCacheKey query (js []) userId of
        Inl e \<Rightarrow> Inl e
      | Inr key \<Rightarrow>
          Inr (awaitedWrite (fault_history env) db
            (db\<lparr>query_history := query_history db @ [historyRowOf userId query result key]\<rparr>)))"

section \<open>The request handler\<close>

text \<open>
  A request as the handler reads it: the \<open>Authorization\<close> header, if there is one; the user
  that the authentication service finds for the token of the header, if any; and the two
  properties of the body.
\<close>

record request =
  req_authorization :: "jsstring option"
  req_user :: "jsstring option"
  req_query :: jsstring
  req_databaseId :: "jsstring option"

datatype response = Unauthorized401 | Ok200 queryResult | Failed500 error

text \<open>The error of \<open>authHeader.replace\<close> on a request without the header.\<close>

definition noHeaderError :: error where
  "noHeaderError =
     TypeError (js ''Cannot read properties of null (reading '' @ [39] @ js ''replace'' @ [39]
       @ js '')'')"

text \<open>A value in a template literal; an absent one reads \<open>undefined\<close>.\<close>

definition templateString :: "jsstring option \<Rightarrow> jsstring" where
  "templateString v = (case v of None \<Rightarrow> js ''undefined'' | Some s \<Rightarrow> s)"

definition withResponseTime :: "env \<Rightarrow> queryResult \<Rightarrow> queryResult" where
  "withResponseTime env result =
     result\<lparr>performanceMetrics :=
       (performanceMetrics result)\<lparr>responseTime := now_end env - now_start env\<rparr>\<rparr>"

definition asCacheHit :: "env \<Rightarrow> queryResult \<Rightarrow> queryResult" where
  "asCacheHit env cachedResult =
     cachedResult\<lparr>performanceMetrics :=
       (performanceMetrics cachedResult)\<lparr>responseTime := now_end env - now_start env,
                                          cacheHit := True\<rparr>\<rparr>"

text \<open>The \<open>switch\<close> on the query type.\<close>

definition processByType :: "env \<Rightarrow> database \<Rightarrow> jsstring \<Rightarrow> jsstring option \<Rightarrow> jsstring
    \<Rightarrow> error + queryResult" where
  "processByType env db query databaseId userId =
     (case classifyQuery (toLowerCase env) query of
        Sql \<Rightarrow> processSQLQuery env db query databaseId userId
      | Document \<Rightarrow> processDocumentQuery env db query userId
      | Hybrid \<Rightarrow> processHybridQuery env db query databaseId userId)"

text \<open>The handler from the classification on, which it reaches when the cache has no answer.\<close>

definition answerMiss :: "env \<Rightarrow> database \<Rightarrow> jsstring \<Rightarrow> jsstring option \<Rightarrow> jsstring \<Rightarrow> jsstring
    \<Rightarrow> response \<times> database" where
  "answerMiss env db query databaseId userId cacheKey =
     (case processByType env db query databaseId userId of
        Inl e \<Rightarrow> (Failed500 e, db)
      | Inr computed \<Rightarrow>
          (let result = withResponseTime env computed;
               dbA = cacheResult env db cacheKey query result
           in case storeQueryHistory env dbA userId query result of
                Inl e \<Rightarrow> (Failed500 e, dbA)
              | Inr dbB \<Rightarrow> (Ok200 result, dbB)))"

definition handler :: "env \<Rightarrow> database \<Rightarrow> request \<Rightarrow> response \<times> database" where
  "handler env db req =
     (case req_authorization req of
        None \<Rightarrow> (Failed500 noHeaderError, db)
      | Some authHeader \<Rightarrow>
     (case req_user req of
        None \<Rightarrow> (Unauthorized401, db)
      | Some userId \<Rightarrow>
          (case generateCacheKey (req_query req) (templateString (req_databaseId req)) userId of
             Inl e \<Rightarrow> (Failed500 e, db)
           | Inr cacheKey \<Rightarrow>
               (case checkCache env db cacheKey of
                  Some cachedResult \<Rightarrow>
                    (case updateCacheHit env db cacheKey of
                       Inl e \<Rightarrow> (Failed500 e, db)
                     | Inr dbA \<Rightarrow> (Ok200 (asCacheHit env cachedResult), dbA))
                | None \<Rightarrow>
                    answerMiss env db (req_query req) (req_databaseId req) userId cacheKey))))"

text \<open>Requests handled one after the other, each in its own environment.\<close>

fun run :: "database \<Rightarrow> (env \<times> request) list \<Rightarrow> response list \<times> database" where
  "run db [] = ([], db)"
| "run db ((env, req) # rest) =
     (case handler env db req of
        (resp, dbA) \<Rightarrow> (case run dbA rest of (resps, dbB) \<Rightarrow> (resp # resps, dbB)))"

section \<open>Properties of results and stores\<close>

text \<open>The shape that a result has for its query type.\<close>

definition shapeOk :: "queryResult \<Rightarrow> bool" where
  "shapeOk r =
     (case queryType r of
        Sql \<Rightarrow> documentResults r = None
      | Document \<Rightarrow> sqlResults r = None
      | Hybrid \<Rightarrow> sqlResults r \<noteq> None \<and> documentResults r \<noteq> None)"

definition cacheShapeOk :: "database \<Rightarrow> bool" where
  "cacheShapeOk db = (\<forall>k r. query_cache db k = Some r \<longrightarrow> shapeOk (cache_results r))"

definition isOk200 :: "response \<Rightarrow> bool" where
  "isOk200 resp = (case resp of Ok200 r \<Rightarrow> True | _ \<Rightarrow> False)"

text \<open>
  The rows that the search of a caller is to select: chunks with an embedding, joined to
  their document, owned by the caller, of a similarity above the threshold. Each comes with
  its distance to the query embedding.
\<close>

definition qualifying :: "(real list \<Rightarrow> real list \<Rightarrow> real) \<Rightarrow> database \<Rightarrow> real list \<Rightarrow> real
    \<Rightarrow> jsstring \<Rightarrow> (chunkRow \<times> documentRow \<times> real) set" where
  "qualifying distance db query_embedding threshold userId =
     {(dc, d, delta). dc \<in> set (document_chunks db) \<and> d \<in> set (documents db)
        \<and> chunk_document_id dc = Some (doc_id d) \<and> doc_user_id d = Some userId
        \<and> (\<exists>e. chunk_embedding dc = Some e \<and> delta = distance e query_embedding)
        \<and> 1 - delta > threshold}"

section \<open>Sample data\<close>

definition qHowMany :: jsstring where
  "qHowMany = js ''How many employees do we have?''"

definition qHybrid :: jsstring where
  "qHybrid = js ''Employees with Python skills earning over 100k''"

definition qDocument :: jsstring where
  "qDocument = js ''Who has Kubernetes certification?''"

definition qNeither :: jsstring where
  "qNeither = js ''Hello there''"

text \<open>A text of two characters above U+00FF.\<close>

definition qKanji :: jsstring where
  "qKanji = [24037, 36039]"

definition alice :: jsstring where
  "alice = js ''alice''"

definition bob :: jsstring where
  "bob = js ''bob''"

definition db1 :: jsstring where
  "db1 = js ''db1''"

definition sampleSchema :: schema where
  "sampleSchema = [\<lparr>tableName = js ''employees'', columns = [js ''emp_id'', js ''full_name'']\<rparr>]"

text \<open>A stand-in for the distance operator: the first coordinate of the stored embedding.\<close>

definition sampleDistance :: "real list \<Rightarrow> real list \<Rightarrow> real" where
  "sampleDistance e q = (case e of [] \<Rightarrow> 1 | x # xs \<Rightarrow> x)"

definition sampleChunk :: "string \<Rightarrow> string \<Rightarrow> real list option \<Rightarrow> chunkRow" where
  "sampleChunk i d e = \<lparr>chunk_id = js i, chunk_document_id = Some (js d), chunk_text = js i,
     chunk_embedding = e, chunk_metadata = js ''{}''\<rparr>"

definition docAnn :: documentRow where
  "docAnn = \<lparr>doc_id = js ''d1'', doc_user_id = Some alice, doc_filename = js ''ann.pdf''\<rparr>"

definition sampleDb :: database where
  "sampleDb =
     \<lparr>discovered_databases =
        [\<lparr>db_id = db1, db_user_id = Some alice, db_schema_data = sampleSchema\<rparr>],
      documents =
        [docAnn,
         \<lparr>doc_id = js ''d2'', doc_user_id = Some bob, doc_filename = js ''bo.pdf''\<rparr>],
      document_chunks =
        [sampleChunk ''c1'' ''d1'' (Some [2 / 10]), sampleChunk ''c2'' ''d1'' (Some [5 / 10]),
         sampleChunk ''c3'' ''d2'' (Some [0]), sampleChunk ''c4'' ''d1'' (Some [1 / 10]),
         sampleChunk ''c5'' ''d1'' None],
      query_cache = Map.empty,
      query_history = []\<rparr>"

text \<open>
  An environment in which every call resolves with its data, with the clock read from \<open>t\<close>
  on.
\<close>

definition envAt :: "int \<Rightarrow> env" where
  "envAt t =
     \<lparr>toLowerCase = asciiLower, cosineDistance = sampleDistance,
      randomEmbedding = [0], now_start = t, now_check = t + 1, now_hit = t + 2,
      now_end = t + 3, now_store = t + 4, fault_checkCache = NoFault,
      fault_updateCacheHit = NoFault, fault_schema = NoFault, fault_rpc = NoFault,
      fault_cacheResult = NoFault, fault_history = NoFault\<rparr>"

text \<open>An environment in which the cache write and the history append fail.\<close>

definition envWritesRefused :: env where
  "envWritesRefused =
     (envAt 1000)\<lparr>fault_cacheResult := ErrorResult, fault_history := ErrorResult\<rparr>"

text \<open>An environment in which the history append fails.\<close>

definition envHistoryRefused :: env where
  "envHistoryRefused = (envAt 1000)\<lparr>fault_history := ErrorResult\<rparr>"

definition bearer :: jsstring where
  "bearer = js ''Bearer token-of-alice''"

definition reqHowMany :: request where
  "reqHowMany = \<lparr>req_authorization = Some bearer, req_user = Some alice,
     req_query = qHowMany, req_databaseId = Some db1\<rparr>"

definition reqHybrid :: request where
  "reqHybrid = \<lparr>req_authorization = Some bearer, req_user = Some alice,
     req_query = qHybrid, req_databaseId = Some db1\<rparr>"

definition reqHybridNoDb :: request where
  "reqHybridNoDb = \<lparr>req_authorization = Some bearer, req_user = Some alice,
     req_query = qHybrid, req_databaseId = None\<rparr>"

text \<open>The sample question with a dataset id of characters above U+00FF.\<close>

definition reqKanjiDb :: request where
  "reqKanjiDb = \<lparr>req_authorization = Some bearer, req_user = Some alice,
     req_query = qHowMany, req_databaseId = Some qKanji\<rparr>"

text \<open>The tables after the sample question was answered once, at time 1000.\<close>

definition dbAsked :: database where
  "dbAsked = snd (handler (envAt 1000) sampleDb reqHowMany)"

section \<open>Searching in strings\<close>

lemma startsWith_iff: "startsWith s k \<longleftrightarrow> (\<exists>post. s = k @ post)"
  by (induction s k rule: startsWith.induct) auto

lemma includes_str_iff: "includes_str s k \<longleftrightarrow> (\<exists>pre post. s = pre @ k @ post)"
proof (induction s)
  case Nil
  show ?case by (cases k) auto
next
  case (Cons c cs)
  have "(\<exists>pre post. c # cs = pre @ k @ post) \<longleftrightarrow>
        (\<exists>post. c # cs = k @ post) \<or> (\<exists>pre post. cs = pre @ k @ post)"
  proof
    assume "\<exists>pre post. c # cs = pre @ k @ post"
    then obtain pre post where eq: "c # cs = pre @ k @ post" by blast
    show "(\<exists>post. c # cs = k @ post) \<or> (\<exists>pre post. cs = pre @ k @ post)"
    proof (cases pre)
      case Nil
      with eq show ?thesis by auto
    next
      case (Cons p ps)
      with eq have "cs = ps @ k @ post" by simp
      then show ?thesis by blast
    qed
  next
    assume "(\<exists>post. c # cs = k @ post) \<or> (\<exists>pre post. cs = pre @ k @ post)"
    then show "\<exists>pre post. c # cs = pre @ k @ post"
    proof
      assume "\<exists>post. c # cs = k @ post"
      then obtain post where "c # cs = [] @ k @ post" by auto
      then show ?thesis by blast
    next
      assume "\<exists>pre post. cs = pre @ k @ post"
      then obtain pre post where "c # cs = (c # pre) @ k @ post" by auto
      then show ?thesis by blast
    qed
  qed
  with Cons show ?case by (simp add: startsWith_iff)
qed

lemma some_iff: "some p xs \<longleftrightarrow> (\<exists>x \<in> set xs. p x)"
  by (induction xs) auto

lemma some_includes_iff: "some (\<lambda>k. includes_str s k) kws \<longleftrightarrow> containsKeyword kws s"
  by (simp add: some_iff containsKeyword_def includes_str_iff)

lemmas eval_str = js_def asciiLower_def sqlKeywords_def docKeywords_def

section \<open>Classification\<close>

text \<open>
  Claim C4. \<open>classifyQuery\<close> is a total function into the three query types. For every
  text and every lowering of it: when the lowered text contains a structural keyword and an
  unstructured keyword the type is hybrid; when it contains an unstructured keyword and no
  structural one the type is document; in every other case, which is no unstructured
  keyword at all, the type is sql.
\<close>

theorem classifyQuery_by_keywords:
  "(containsKeyword sqlKeywords (lc query) \<and> containsKeyword docKeywords (lc query)
      \<longrightarrow> classifyQuery lc query = Hybrid)
   \<and> (\<not> containsKeyword sqlKeywords (lc query) \<and> containsKeyword docKeywords (lc query)
      \<longrightarrow> classifyQuery lc query = Document)
   \<and> (\<not> containsKeyword docKeywords (lc query) \<longrightarrow> classifyQuery lc query = Sql)"
  by (simp add: classifyQuery_def Let_def some_includes_iff)

text \<open>
  The four cases on sample texts: both kinds of keyword, an unstructured keyword only, a
  structural keyword only, and no keyword. Each of the three types is a value of the
  function.
\<close>

theorem classifyQuery_by_keywords_witness:
  "containsKeyword sqlKeywords (asciiLower qHybrid)
   \<and> containsKeyword docKeywords (asciiLower qHybrid)
   \<and> classifyQuery asciiLower qHybrid = Hybrid
   \<and> \<not> containsKeyword sqlKeywords (asciiLower qDocument)
   \<and> containsKeyword docKeywords (asciiLower qDocument)
   \<and> classifyQuery asciiLower qDocument = Document
   \<and> containsKeyword sqlKeywords (asciiLower qHowMany)
   \<and> \<not> containsKeyword docKeywords (asciiLower qHowMany)
   \<and> classifyQuery asciiLower qHowMany = Sql
   \<and> \<not> containsKeyword sqlKeywords (asciiLower qNeither)
   \<and> \<not> containsKeyword docKeywords (asciiLower qNeither)
   \<and> classifyQuery asciiLower qNeither = Sql"
proof -
  have h1: "containsKeyword sqlKeywords (asciiLower qHybrid)"
    unfolding some_includes_iff [symmetric] by (simp add: eval_str qHybrid_def)
  have h2: "containsKeyword docKeywords (asciiLower qHybrid)"
    unfolding some_includes_iff [symmetric] by (simp add: eval_str qHybrid_def)
  have d1: "\<not> containsKeyword sqlKeywords (asciiLower qDocument)"
    unfolding some_includes_iff [symmetric] by (simp add: eval_str qDocument_def)
  have d2: "containsKeyword docKeywords (asciiLower qDocument)"
    unfolding some_includes_iff [symmetric] by (simp add: eval_str qDocument_def)
  have s1: "containsKeyword sqlKeywords (asciiLower qHowMany)"
    unfolding some_includes_iff [symmetric] by (simp add: eval_str qHowMany_def)
  have s2: "\<not> containsKeyword docKeywords (asciiLower qHowMany)"
    unfolding some_includes_iff [symmetric] by (simp add: eval_str qHowMany_def)
  have n1: "\<not> containsKeyword sqlKeywords (asciiLower qNeither)"
    unfolding some_includes_iff [symmetric] by (simp add: eval_str qNeither_def)
  have n2: "\<not> containsKeyword docKeywords (asciiLower qNeither)"
    unfolding some_includes_iff [symmetric] by (simp add: eval_str qNeither_def)
  show ?thesis
    using h1 h2 d1 d2 s1 s2 n1 n2
      classifyQuery_by_keywords [of asciiLower qHybrid]
      classifyQuery_by_keywords [of asciiLower qDocument]
      classifyQuery_by_keywords [of asciiLower qHowMany]
      classifyQuery_by_keywords [of asciiLower qNeither]
    by blast
qed

section \<open>SQL synthesis\<close>

text \<open>
  Claim C3, as stated, asks that a statement is emitted only after its tables and columns
  were found in the schema, and the default statement otherwise. On a schema without any
  table the counting phrase still yields the counting statement over \<open>employees\<close>, which is
  not the default statement.
\<close>

theorem generateSQL_no_schema_check:
  "templateMatches asciiLower qHowMany \<and> \<not> hasTable [] (js ''employees'')
   \<and> generateSQL asciiLower qHowMany [] = countSQL \<and> countSQL \<noteq> defaultSQL"
  by (simp add: templateMatches_def templatePhrases_def hasTable_def generateSQL_def qHowMany_def
      js_def asciiLower_def countSQL_def defaultSQL_def)

text \<open>
  Claim C3, amended. For every text and every schema \<open>generateSQL\<close> returns one of its seven
  fixed statements, so it never fails; the statement is decided by the text alone and is
  the same for every schema, no reference being checked against the schema; and when no
  phrase template matches, it is the default statement, the projection of all columns of
  \<open>employees\<close> with row limit 10.
\<close>

theorem generateSQL_from_text_alone:
  "generateSQL lc query schema1 = generateSQL lc query schema2
   \<and> generateSQL lc query schema1 \<in> {countSQL, avgByDeptSQL, avgSQL, topPerDeptSQL, topSQL,
        hiredThisYearSQL, defaultSQL}
   \<and> (\<not> templateMatches lc query \<longrightarrow> generateSQL lc query schema1 = defaultSQL)"
  by (simp add: generateSQL_def templateMatches_def templatePhrases_def Let_def)

theorem generateSQL_from_text_alone_witness:
  "\<not> templateMatches asciiLower qNeither \<and> generateSQL asciiLower qNeither [] = defaultSQL"
proof -
  have h: "\<not> templateMatches asciiLower qNeither"
    by (simp add: templateMatches_def templatePhrases_def qNeither_def js_def asciiLower_def)
  with generateSQL_from_text_alone [of asciiLower qNeither "[]" "[]"] show ?thesis by blast
qed

section \<open>Cache keys\<close>

lemmas eval_key = generateCacheKey_def keyContent_def btoa_def latin1_def js_def sextet_def
  base64Alphabet_def alphanumeric_def

lemma latin1_keyContent:
  "latin1 (keyContent q d c) \<longleftrightarrow> latin1 q \<and> latin1 d \<and> latin1 c"
  by (auto simp: latin1_def keyContent_def js_def)

lemma generateCacheKey_latin1:
  "latin1 (keyContent q d c) \<Longrightarrow>
   generateCacheKey q d c = Inr (take 32 (filter alphanumeric (base64 (keyContent q d c))))"
  by (simp add: generateCacheKey_def btoa_def)

lemma take_filter_props:
  "length (take n (filter P xs)) \<le> n \<and> (\<forall>ch \<in> set (take n (filter P xs)). P ch)"
  by (auto dest: in_set_takeD)

lemma generateCacheKey_latin1_ex:
  assumes "latin1 (keyContent q d c)"
  shows "\<exists>key. generateCacheKey q d c = Inr key \<and> length key \<le> 32
             \<and> (\<forall>ch \<in> set key. alphanumeric ch)"
  using generateCacheKey_latin1 [OF assms]
    take_filter_props [of 32 alphanumeric "base64 (keyContent q d c)"]
  by blast

lemma generateCacheKey_not_latin1:
  "\<not> latin1 (keyContent q d c) \<Longrightarrow> generateCacheKey q d c = Inl InvalidCharacterError"
  by (simp add: generateCacheKey_def btoa_def)

lemma generateCacheKey_Inr_latin1:
  "generateCacheKey q d c = Inr k \<Longrightarrow> latin1 q \<and> latin1 d \<and> latin1 c"
  by (cases "latin1 (keyContent q d c)")
     (simp_all add: generateCacheKey_not_latin1 latin1_keyContent)

text \<open>
  Claim C6 asks that inputs which differ in a component have different keys. The key is
  cut to 32 characters, the encoding of the first 24 characters of the joined text: the
  sample question, asked by two callers, has one and the same key.
\<close>

theorem cache_key_collision:
  "generateCacheKey qHowMany db1 alice = Inr (js ''SG93IG1hbnkgZW1wbG95ZWVzIGRvIHdl'')
   \<and> generateCacheKey qHowMany db1 bob = Inr (js ''SG93IG1hbnkgZW1wbG95ZWVzIGRvIHdl'')
   \<and> alice \<noteq> bob"
  by (simp add: eval_key qHowMany_def db1_def alice_def bob_def)

section \<open>The paths of the handler\<close>

lemma handler_no_header:
  "req_authorization req = None \<Longrightarrow> handler env db req = (Failed500 noHeaderError, db)"
  by (simp add: handler_def)

lemma handler_unauthorized:
  "req_authorization req = Some h \<Longrightarrow> req_user req = None
   \<Longrightarrow> handler env db req = (Unauthorized401, db)"
  by (simp add: handler_def)

lemma handler_key_error:
  assumes "req_authorization req = Some h" and "req_user req = Some userId"
    and "generateCacheKey (req_query req) (templateString (req_databaseId req)) userId = Inl e"
  shows "handler env db req = (Failed500 e, db)"
  using assms by (simp add: handler_def)

lemma updateCacheHit_fails:
  "updateCacheHit env db k = Inl (TypeError (js ''supabaseClient.raw is not a function''))"
  by (simp add: updateCacheHit_def clientMembers_def js_def)

lemma handler_hit:
  assumes "req_authorization req = Some h" and "req_user req = Some userId"
    and "generateCacheKey (req_query req) (templateString (req_databaseId req)) userId = Inr cacheKey"
    and "checkCache env db cacheKey = Some cachedResult"
  shows "handler env db req
         = (Failed500 (TypeError (js ''supabaseClient.raw is not a function'')), db)"
  using assms by (simp add: handler_def updateCacheHit_fails)

lemma handler_miss:
  assumes "req_authorization req = Some h" and "req_user req = Some userId"
    and "generateCacheKey (req_query req) (templateString (req_databaseId req)) userId = Inr cacheKey"
    and "checkCache env db cacheKey = None"
  shows "handler env db req
         = answerMiss env db (req_query req) (req_databaseId req) userId cacheKey"
  using assms by (simp add: handler_def)

lemma answerMiss_compute_error:
  assumes "processByType env db query databaseId userId = Inl e"
  shows "answerMiss env db query databaseId userId cacheKey = (Failed500 e, db)"
  using assms by (simp add: answerMiss_def)

lemma answerMiss_history_error:
  assumes "processByType env db query databaseId userId = Inr computed"
    and "storeQueryHistory env
           (cacheResult env db cacheKey query (withResponseTime env computed)) userId query
           (withResponseTime env computed) = Inl e"
  shows "answerMiss env db query databaseId userId cacheKey
         = (Failed500 e, cacheResult env db cacheKey query (withResponseTime env computed))"
  using assms by (simp add: answerMiss_def Let_def)

lemma answerMiss_ok:
  assumes "processByType env db query databaseId userId = Inr computed"
    and "storeQueryHistory env
           (cacheResult env db cacheKey query (withResponseTime env computed)) userId query
           (withResponseTime env computed) = Inr dbB"
  shows "answerMiss env db query databaseId userId cacheKey
         = (Ok200 (withResponseTime env computed), dbB)"
  using assms by (simp add: answerMiss_def Let_def)

lemma history_key_ok:
  assumes "generateCacheKey q d u = Inr k"
  shows "\<exists>hk. generateCacheKey q (js []) u = Inr hk"
proof -
  from assms have "latin1 q \<and> latin1 u" by (auto dest: generateCacheKey_Inr_latin1)
  then have "latin1 (keyContent q (js []) u)"
    by (simp add: latin1_keyContent) (simp add: latin1_def js_def)
  then show ?thesis by (simp add: generateCacheKey_latin1)
qed

lemma storeQueryHistory_key:
  "generateCacheKey q (js []) u = Inr hk \<Longrightarrow>
   storeQueryHistory env db u q r
   = Inr (awaitedWrite (fault_history env) db
       (db\<lparr>query_history := query_history db @ [historyRowOf u q r hk]\<rparr>))"
  by (simp add: storeQueryHistory_def)

lemma answerMiss_computed:
  assumes p: "processByType env db q d u = Inr computed"
    and hk: "generateCacheKey q (js []) u = Inr hk"
  shows "answerMiss env db q d u k
     = (Ok200 (withResponseTime env computed),
        awaitedWrite (fault_history env)
          (cacheResult env db k q (withResponseTime env computed))
          ((cacheResult env db k q (withResponseTime env computed))
             \<lparr>query_history := query_history (cacheResult env db k q (withResponseTime env computed))
                @ [historyRowOf u q (withResponseTime env computed) hk]\<rparr>))"
  by (rule answerMiss_ok [OF p]) (rule storeQueryHistory_key [OF hk])

lemma processHybridQuery_sql_error:
  "processSQLQuery env db query databaseId userId = Inl e
   \<Longrightarrow> processHybridQuery env db query databaseId userId = Inl e"
  by (simp add: processHybridQuery_def)

lemma processByType_hybrid:
  "classifyQuery (toLowerCase env) query = Hybrid
   \<Longrightarrow> processByType env db query databaseId userId
       = processHybridQuery env db query databaseId userId"
  by (simp add: processByType_def)

lemma processByType_sql:
  "classifyQuery (toLowerCase env) query = Sql
   \<Longrightarrow> processByType env db query databaseId userId
       = processSQLQuery env db query databaseId userId"
  by (simp add: processByType_def)

section \<open>The sample data evaluated\<close>

lemma envAt_sel:
  "toLowerCase (envAt t) = asciiLower"
  "cosineDistance (envAt t) = sampleDistance"
  "randomEmbedding (envAt t) = [0]"
  "now_start (envAt t) = t"
  "now_check (envAt t) = t + 1"
  "now_hit (envAt t) = t + 2"
  "now_end (envAt t) = t + 3"
  "now_store (envAt t) = t + 4"
  "fault_checkCache (envAt t) = NoFault"
  "fault_updateCacheHit (envAt t) = NoFault"
  "fault_schema (envAt t) = NoFault"
  "fault_rpc (envAt t) = NoFault"
  "fault_cacheResult (envAt t) = NoFault"
  "fault_history (envAt t) = NoFault"
  by (simp_all add: envAt_def)

lemma envWritesRefused_sel:
  "toLowerCase envWritesRefused = asciiLower"
  "fault_checkCache envWritesRefused = NoFault"
  "fault_schema envWritesRefused = NoFault"
  "fault_cacheResult envWritesRefused = ErrorResult"
  "fault_history envWritesRefused = ErrorResult"
  by (simp_all add: envWritesRefused_def envAt_def)

lemma envHistoryRefused_sel:
  "toLowerCase envHistoryRefused = asciiLower"
  "fault_checkCache envHistoryRefused = NoFault"
  "fault_schema envHistoryRefused = NoFault"
  "fault_cacheResult envHistoryRefused = NoFault"
  "fault_history envHistoryRefused = ErrorResult"
  by (simp_all add: envHistoryRefused_def envAt_def)

lemmas env_sel = envAt_sel envWritesRefused_sel envHistoryRefused_sel

lemma req_sel:
  "req_authorization reqHowMany = Some bearer" "req_user reqHowMany = Some alice"
  "req_query reqHowMany = qHowMany" "req_databaseId reqHowMany = Some db1"
  "req_authorization reqHybrid = Some bearer" "req_user reqHybrid = Some alice"
  "req_query reqHybrid = qHybrid" "req_databaseId reqHybrid = Some db1"
  "req_authorization reqHybridNoDb = Some bearer" "req_user reqHybridNoDb = Some alice"
  "req_query reqHybridNoDb = qHybrid" "req_databaseId reqHybridNoDb = None"
  "req_authorization reqKanjiDb = Some bearer" "req_user reqKanjiDb = Some alice"
  "req_query reqKanjiDb = qHowMany" "req_databaseId reqKanjiDb = Some qKanji"
  by (simp_all add: reqHowMany_def reqHybrid_def reqHybridNoDb_def reqKanjiDb_def)

lemma classify_qHybrid: "classifyQuery asciiLower qHybrid = Hybrid"
  by (simp add: classifyQuery_def eval_str qHybrid_def)

lemma classify_qHowMany: "classifyQuery asciiLower qHowMany = Sql"
  by (simp add: classifyQuery_def eval_str qHowMany_def)

lemma latin1_samples: "latin1 qHowMany" "latin1 qHybrid" "latin1 alice" "latin1 bob" "latin1 db1"
  "latin1 (js ''undefined'')" "\<not> latin1 qKanji"
  by (simp_all add: latin1_def qHowMany_def qHybrid_def alice_def bob_def db1_def js_def
      qKanji_def)

lemma templateString_latin1: "latin1 (templateString None)" "latin1 (templateString (Some db1))"
  by (simp_all add: templateString_def latin1_samples)

lemma sample_key:
  "latin1 q \<Longrightarrow> latin1 (templateString d) \<Longrightarrow>
   \<exists>k. generateCacheKey q (templateString d) alice = Inr k"
  by (simp add: generateCacheKey_latin1 latin1_keyContent latin1_samples)

lemma checkCache_empty: "query_cache db = Map.empty \<Longrightarrow> checkCache env db k = None"
  by (cases "fault_checkCache env") (simp_all add: checkCache_def awaited_def)

lemma sampleDb_cache: "query_cache sampleDb = Map.empty"
  by (simp add: sampleDb_def)

lemma selectSchema_sample: "selectSchema sampleDb (Some db1) alice = Some sampleSchema"
  "selectSchema sampleDb None alice = None"
  by (simp_all add: selectSchema_def sampleDb_def)

lemma processSQLQuery_found:
  "selectSchema db d u = Some s \<Longrightarrow> fault_schema env = NoFault
   \<Longrightarrow> \<not> isl (processSQLQuery env db q d u)"
  by (simp add: processSQLQuery_def awaited_def Let_def)

lemma processSQLQuery_not_found:
  "selectSchema db d u = None
   \<Longrightarrow> processSQLQuery env db q d u = Inl (Error (js ''Database not found''))"
  by (cases "fault_schema env") (simp_all add: processSQLQuery_def awaited_def)

lemma not_isl_obtain: "\<not> isl x \<Longrightarrow> \<exists>r. x = Inr r"
  by (cases x) auto

lemma sample_miss:
  assumes "latin1 (req_query req)" and "latin1 (templateString (req_databaseId req))"
  shows "\<exists>k. generateCacheKey (req_query req) (templateString (req_databaseId req)) alice = Inr k
           \<and> checkCache env sampleDb k = None"
  using sample_key [OF assms] checkCache_empty [OF sampleDb_cache] by blast

section \<open>Partiality of the cache key\<close>

text \<open>
  Claim C10, as stated, has a key for every query text whose characters are in the Latin-1
  range. The dataset id of the request is encoded with the text: the sample question, all
  Latin-1, asked with a dataset id of two characters above U+00FF, has no key, and the
  handler answers the request with the failure of \<open>btoa\<close> and leaves the tables as they
  were.
\<close>

theorem cache_key_needs_latin1_ids:
  "latin1 qHowMany
   \<and> generateCacheKey qHowMany qKanji alice = Inl InvalidCharacterError
   \<and> handler (envAt 1000) sampleDb reqKanjiDb = (Failed500 InvalidCharacterError, sampleDb)"
proof -
  have k: "generateCacheKey qHowMany qKanji alice = Inl InvalidCharacterError"
    by (rule generateCacheKey_not_latin1) (simp add: latin1_keyContent latin1_samples)
  have "handler (envAt 1000) sampleDb reqKanjiDb = (Failed500 InvalidCharacterError, sampleDb)"
    by (rule handler_key_error [OF req_sel(13) req_sel(14)])
       (simp add: req_sel templateString_def k)
  with k latin1_samples(1) show ?thesis by simp
qed

text \<open>
  Claim C10, amended. The derivation of the key is partial. When the query text, the
  dataset id and the caller id have all their characters in the Latin-1 range,
  \<open>generateCacheKey\<close> returns a key of at most 32 characters, all of them letters or digits.
  When the text has a character above U+00FF, \<open>btoa\<close> throws: \<open>generateCacheKey\<close> fails,
  and the handler answers an authenticated request with the failure, whatever the
  environment and the tables are, and leaves the tables as they were, so neither
  classification nor retrieval, caching or recording took place.
\<close>

theorem cache_key_partial:
  "(latin1 query \<and> latin1 databaseId \<and> latin1 userId \<longrightarrow>
      (\<exists>key. generateCacheKey query databaseId userId = Inr key \<and> length key \<le> 32
             \<and> (\<forall>ch \<in> set key. alphanumeric ch)))
   \<and> (\<not> latin1 query \<longrightarrow>
        generateCacheKey query databaseId userId = Inl InvalidCharacterError
        \<and> (\<forall>env db h dopt. handler env db
               \<lparr>req_authorization = Some h, req_user = Some userId, req_query = query,
                req_databaseId = dopt\<rparr>
             = (Failed500 InvalidCharacterError, db)))"
proof (intro conjI impI allI)
  assume "latin1 query \<and> latin1 databaseId \<and> latin1 userId"
  then have "latin1 (keyContent query databaseId userId)" by (simp add: latin1_keyContent)
  then show "\<exists>key. generateCacheKey query databaseId userId = Inr key \<and> length key \<le> 32
      \<and> (\<forall>ch \<in> set key. alphanumeric ch)"
    by (rule generateCacheKey_latin1_ex)
next
  assume n: "\<not> latin1 query"
  then show "generateCacheKey query databaseId userId = Inl InvalidCharacterError"
    by (simp add: generateCacheKey_not_latin1 latin1_keyContent)
next
  fix env db h dopt
  assume n: "\<not> latin1 query"
  show "handler env db \<lparr>req_authorization = Some h, req_user = Some userId, req_query = query,
          req_databaseId = dopt\<rparr>
        = (Failed500 InvalidCharacterError, db)"
    using n
    by (intro handler_key_error [of _ h userId])
       (simp_all add: generateCacheKey_not_latin1 latin1_keyContent)
qed

text \<open>
  The amended claim C10 at the sample question with its dataset and caller, and at a
  question of two characters above U+00FF.
\<close>

theorem cache_key_partial_witness:
  "latin1 qHowMany \<and> latin1 db1 \<and> latin1 alice
   \<and> (\<exists>key. generateCacheKey qHowMany db1 alice = Inr key \<and> length key \<le> 32
            \<and> (\<forall>ch \<in> set key. alphanumeric ch))
   \<and> \<not> latin1 qKanji
   \<and> generateCacheKey qKanji db1 alice = Inl InvalidCharacterError
   \<and> (\<forall>env db h dopt. handler env db
          \<lparr>req_authorization = Some h, req_user = Some alice, req_query = qKanji,
           req_databaseId = dopt\<rparr>
        = (Failed500 InvalidCharacterError, db))"
proof -
  have a: "latin1 qHowMany \<and> latin1 db1 \<and> latin1 alice"
    by (simp add: latin1_samples)
  have b: "\<not> latin1 qKanji" by (simp add: latin1_samples)
  show ?thesis
    using a b cache_key_partial [of qHowMany db1 alice] cache_key_partial [of qKanji db1 alice]
    by blast
qed

section \<open>Document retrieval\<close>

lemma ambiguous_names: "filter ambiguous unqualifiedNames = [js ''user_id'', js ''user_id'']"
  by (simp add: ambiguous_def unqualifiedNames_def functionVariables_def fromColumns_def js_def)

lemma match_documents_raises:
  "match_documents distance db query_embedding match_threshold match_count user_id
   = Inl (AmbiguousColumn (js ''user_id''))"
  by (simp add: match_documents_def ambiguous_names)

lemma rpcMatchDocuments_None: "rpcMatchDocuments env db queryEmbedding userId = None"
  by (cases "fault_rpc env") (simp_all add: rpcMatchDocuments_def match_documents_raises awaited_def)

lemma processDocumentQuery_empty:
  "processDocumentQuery env db query userId
   = Inr \<lparr>queryType = Document, sqlResults = None, documentResults = Some [],
          generatedSQL = None,
          performanceMetrics = \<lparr>responseTime = 0, cacheHit = False, resultsCount = 0\<rparr>,
          sources = []\<rparr>"
  by (simp add: processDocumentQuery_def rpcMatchDocuments_None Let_def)

lemma sample_qualifying:
  "(sampleChunk ''c4'' ''d1'' (Some [1 / 10]), docAnn, 1 / 10)
     \<in> qualifying sampleDistance sampleDb [0] (7 / 10) alice"
  by (simp add: qualifying_def sampleDb_def sampleChunk_def docAnn_def sampleDistance_def)

text \<open>
  Claim C7 has the retrieval return the chunks of the caller whose similarity to the query
  embedding exceeds the threshold. In the sample tables the chunk \<open>c4\<close> belongs to a
  document of alice and is at distance 0.1 of the query embedding, a similarity of 0.9
  above the threshold 0.7. The function of the migration names its fourth parameter
  \<open>user_id\<close>, as the owner column of the document table is named, and writes that name
  without a qualifier in its \<open>WHERE\<close> clause: the call raises the error of an ambiguous
  column, the remote call has no data, and \<open>processDocumentQuery\<close> returns no match.
\<close>

theorem retrieval_returns_nothing:
  "(sampleChunk ''c4'' ''d1'' (Some [1 / 10]), docAnn, 1 / 10)
     \<in> qualifying (cosineDistance (envAt 1000)) sampleDb
         (generateEmbedding (envAt 1000) qDocument) (7 / 10) alice
   \<and> match_documents (cosineDistance (envAt 1000)) sampleDb
        (generateEmbedding (envAt 1000) qDocument) (7 / 10) 10 (Some alice)
      = Inl (AmbiguousColumn (js ''user_id''))
   \<and> processDocumentQuery (envAt 1000) sampleDb qDocument alice
      = Inr \<lparr>queryType = Document, sqlResults = None, documentResults = Some [],
             generatedSQL = None,
             performanceMetrics = \<lparr>responseTime = 0, cacheHit = False, resultsCount = 0\<rparr>,
             sources = []\<rparr>"
  using sample_qualifying
  by (simp add: match_documents_raises processDocumentQuery_empty generateEmbedding_def env_sel)

section \<open>Answers that are computed\<close>

lemma checkCache_writes:
  "checkCache (env\<lparr>fault_cacheResult := f1, fault_history := f2\<rparr>) db k = checkCache env db k"
  by (simp add: checkCache_def cong: option.case_cong)

lemma processSQLQuery_writes:
  "processSQLQuery (env\<lparr>fault_cacheResult := f1, fault_history := f2\<rparr>) db q d u
   = processSQLQuery env db q d u"
  by (simp add: processSQLQuery_def cong: option.case_cong)

lemma processHybridQuery_writes:
  "processHybridQuery (env\<lparr>fault_cacheResult := f1, fault_history := f2\<rparr>) db q d u
   = processHybridQuery env db q d u"
  unfolding processHybridQuery_def processSQLQuery_writes processDocumentQuery_empty ..

lemma processByType_writes:
  "processByType (env\<lparr>fault_cacheResult := f1, fault_history := f2\<rparr>) db q d u
   = processByType env db q d u"
  by (simp add: processByType_def processHybridQuery_writes processSQLQuery_writes
      processDocumentQuery_empty cong: queryType.case_cong)

lemma withResponseTime_writes:
  "withResponseTime (env\<lparr>fault_cacheResult := f1, fault_history := f2\<rparr>) r
   = withResponseTime env r"
  by (simp add: withResponseTime_def)

lemma miss_response:
  assumes a: "req_authorization req = Some h"
    and u: "req_user req = Some userId"
    and k: "generateCacheKey (req_query req) (templateString (req_databaseId req)) userId
            = Inr cacheKey"
    and c: "checkCache env db cacheKey = None"
    and p: "processByType env db (req_query req) (req_databaseId req) userId = Inr computed"
  shows "\<exists>hk. generateCacheKey (req_query req) (js []) userId = Inr hk
     \<and> handler env db req
       = (Ok200 (withResponseTime env computed),
          awaitedWrite (fault_history env)
            (cacheResult env db cacheKey (req_query req) (withResponseTime env computed))
            ((cacheResult env db cacheKey (req_query req) (withResponseTime env computed))
               \<lparr>query_history :=
                  query_history
                    (cacheResult env db cacheKey (req_query req) (withResponseTime env computed))
                  @ [historyRowOf userId (req_query req) (withResponseTime env computed) hk]\<rparr>))"
proof -
  obtain hk where hk: "generateCacheKey (req_query req) (js []) userId = Inr hk"
    using history_key_ok [OF k] by blast
  show ?thesis
    using hk handler_miss [OF a u k c] answerMiss_computed [OF p hk, of cacheKey] by simp
qed

section \<open>Hybrid queries with a failing leg\<close>

lemma processHybridQuery_merged:
  assumes "processSQLQuery env db query databaseId userId = Inr s"
  shows "processHybridQuery env db query databaseId userId
     = Inr \<lparr>queryType = Hybrid, sqlResults = sqlResults s, documentResults = Some [],
            generatedSQL = generatedSQL s,
            performanceMetrics = \<lparr>responseTime = 0, cacheHit = False,
                                  resultsCount = lengthOr0 (sqlResults s)\<rparr>,
            sources = sources s\<rparr>"
  using assms by (simp add: processHybridQuery_def processDocumentQuery_empty lengthOr0_def)

lemma generateSQL_qHybrid: "generateSQL asciiLower qHybrid sch = defaultSQL"
  by (simp add: generateSQL_def qHybrid_def asciiLower_def js_def)

lemma executeSQL_default: "executeSQL defaultSQL sch = mockEmployees"
  by (simp add: executeSQL_def defaultSQL_def countSQL_def avgSQL_def js_def)

lemma processSQLQuery_sample_hybrid:
  "processSQLQuery (envAt 1000) sampleDb qHybrid (Some db1) alice
   = Inr \<lparr>queryType = Sql, sqlResults = Some mockEmployees, documentResults = None,
          generatedSQL = Some defaultSQL,
          performanceMetrics = \<lparr>responseTime = 0, cacheHit = False, resultsCount = 5\<rparr>,
          sources = [js ''database'']\<rparr>"
proof -
  have "length mockEmployees = 5" by (simp add: mockEmployees_def)
  then show ?thesis
    by (simp add: processSQLQuery_def awaited_def selectSchema_sample env_sel
        generateSQL_qHybrid executeSQL_default)
qed

text \<open>
  Claim C1, as stated, has a hybrid query with one failing leg answered with the data of
  the other leg and an indicator of the partial failure, and has it fail only when both
  legs fail. In the sample request without a database id the SQL leg fails while the
  document leg returns a result: the handler answers with the failure. In the sample
  request with the database id the SQL leg succeeds while the vector search of the document
  leg fails: the handler answers with the SQL rows and an empty list of document matches,
  and the answer, all of whose fields are given, has no indicator of the failure.
\<close>

theorem partial_hybrid_not_tolerated:
  "classifyQuery asciiLower qHybrid = Hybrid
   \<and> isl (processSQLQuery (envAt 1000) sampleDb qHybrid None alice)
   \<and> \<not> isl (processDocumentQuery (envAt 1000) sampleDb qHybrid alice)
   \<and> handler (envAt 1000) sampleDb reqHybridNoDb
       = (Failed500 (Error (js ''Database not found'')), sampleDb)
   \<and> \<not> isl (processSQLQuery (envAt 1000) sampleDb qHybrid (Some db1) alice)
   \<and> rpcMatchDocuments (envAt 1000) sampleDb (generateEmbedding (envAt 1000) qHybrid) alice
       = None
   \<and> fst (handler (envAt 1000) sampleDb reqHybrid)
       = Ok200 \<lparr>queryType = Hybrid, sqlResults = Some mockEmployees,
                documentResults = Some [], generatedSQL = Some defaultSQL,
                performanceMetrics = \<lparr>responseTime = 3, cacheHit = False, resultsCount = 5\<rparr>,
                sources = [js ''database'']\<rparr>"
proof -
  let ?E = "envAt 1000"
  have sqlA: "processSQLQuery ?E sampleDb qHybrid None alice
      = Inl (Error (js ''Database not found''))"
    by (rule processSQLQuery_not_found) (simp add: selectSchema_sample)
  have docA: "\<not> isl (processDocumentQuery ?E sampleDb qHybrid alice)"
    by (simp add: processDocumentQuery_empty)
  obtain kA where kA: "generateCacheKey (req_query reqHybridNoDb)
        (templateString (req_databaseId reqHybridNoDb)) alice = Inr kA"
      and cA: "checkCache ?E sampleDb kA = None"
    using sample_miss [of reqHybridNoDb ?E]
    by (auto simp: req_sel latin1_samples templateString_latin1)
  have typeA: "processByType ?E sampleDb (req_query reqHybridNoDb)
      (req_databaseId reqHybridNoDb) alice = Inl (Error (js ''Database not found''))"
    by (simp add: req_sel processByType_hybrid classify_qHybrid env_sel
        processHybridQuery_sql_error [OF sqlA])
  have hA: "handler ?E sampleDb reqHybridNoDb
      = (Failed500 (Error (js ''Database not found'')), sampleDb)"
    using handler_miss [OF req_sel(9) req_sel(10) kA cA]
      answerMiss_compute_error [OF typeA, of kA]
    by simp
  obtain kB where kB: "generateCacheKey (req_query reqHybrid)
        (templateString (req_databaseId reqHybrid)) alice = Inr kB"
      and cB: "checkCache ?E sampleDb kB = None"
    using sample_miss [of reqHybrid ?E]
    by (auto simp: req_sel latin1_samples templateString_latin1)
  have sqlB: "\<not> isl (processSQLQuery ?E sampleDb qHybrid (Some db1) alice)"
    by (simp add: processSQLQuery_sample_hybrid)
  have rpc: "rpcMatchDocuments ?E sampleDb (generateEmbedding ?E qHybrid) alice = None"
    by (rule rpcMatchDocuments_None)
  have typeB: "processByType ?E sampleDb (req_query reqHybrid) (req_databaseId reqHybrid) alice
      = Inr \<lparr>queryType = Hybrid, sqlResults = Some mockEmployees, documentResults = Some [],
            generatedSQL = Some defaultSQL,
            performanceMetrics = \<lparr>responseTime = 0, cacheHit = False, resultsCount = 5\<rparr>,
            sources = [js ''database'']\<rparr>"
    using processHybridQuery_merged [OF processSQLQuery_sample_hybrid]
    by (simp add: req_sel processByType_hybrid classify_qHybrid env_sel lengthOr0_def
        mockEmployees_def)
  have hB: "fst (handler ?E sampleDb reqHybrid)
       = Ok200 \<lparr>queryType = Hybrid, sqlResults = Some mockEmployees,
                documentResults = Some [], generatedSQL = Some defaultSQL,
                performanceMetrics = \<lparr>responseTime = 3, cacheHit = False, resultsCount = 5\<rparr>,
                sources = [js ''database'']\<rparr>"
    using miss_response [OF req_sel(5) req_sel(6) kB cB typeB]
    by (auto simp: withResponseTime_def env_sel)
  show ?thesis using classify_qHybrid sqlA docA hA sqlB rpc hB by simp
qed

text \<open>
  Claim C1, amended. For a hybrid query that the cache does not answer: when the SQL leg
  fails, the handler fails as a whole with the error of that leg and leaves the tables as
  they were; when the SQL leg succeeds and the vector search of the document leg fails,
  the handler returns a hybrid result with the rows, the statement and the sources of the
  SQL leg and an empty list of document matches, which has no indicator of the failure.
\<close>

theorem hybrid_result_follows_sql_leg:
  assumes a: "req_authorization req = Some h"
    and u: "req_user req = Some userId"
    and k: "generateCacheKey (req_query req) (templateString (req_databaseId req)) userId
            = Inr cacheKey"
    and c: "checkCache env db cacheKey = None"
    and hy: "classifyQuery (toLowerCase env) (req_query req) = Hybrid"
  shows "(processSQLQuery env db (req_query req) (req_databaseId req) userId = Inl e
            \<longrightarrow> handler env db req = (Failed500 e, db))
       \<and> (processSQLQuery env db (req_query req) (req_databaseId req) userId = Inr s
            \<and> rpcMatchDocuments env db (generateEmbedding env (req_query req)) userId = None
            \<longrightarrow> fst (handler env db req)
                = Ok200 \<lparr>queryType = Hybrid, sqlResults = sqlResults s,
                         documentResults = Some [], generatedSQL = generatedSQL s,
                         performanceMetrics =
                           \<lparr>responseTime = now_end env - now_start env, cacheHit = False,
                            resultsCount = lengthOr0 (sqlResults s)\<rparr>,
                         sources = sources s\<rparr>)"
proof -
  let ?sql = "processSQLQuery env db (req_query req) (req_databaseId req) userId"
  have miss: "handler env db req
      = answerMiss env db (req_query req) (req_databaseId req) userId cacheKey"
    using a u k c by (rule handler_miss)
  have byType: "processByType env db (req_query req) (req_databaseId req) userId
      = processHybridQuery env db (req_query req) (req_databaseId req) userId"
    using hy by (rule processByType_hybrid)
  obtain hk where hk: "generateCacheKey (req_query req) (js []) userId = Inr hk"
    using history_key_ok [OF k] by blast
  have p1: "?sql = Inl e \<longrightarrow> handler env db req = (Failed500 e, db)"
    by (simp add: miss answerMiss_compute_error byType processHybridQuery_sql_error)
  have p2: "fst (handler env db req)
                = Ok200 \<lparr>queryType = Hybrid, sqlResults = sqlResults s,
                         documentResults = Some [], generatedSQL = generatedSQL s,
                         performanceMetrics =
                           \<lparr>responseTime = now_end env - now_start env, cacheHit = False,
                            resultsCount = lengthOr0 (sqlResults s)\<rparr>,
                         sources = sources s\<rparr>" if s: "?sql = Inr s"
  proof -
    have "processByType env db (req_query req) (req_databaseId req) userId
        = Inr \<lparr>queryType = Hybrid, sqlResults = sqlResults s, documentResults = Some [],
            generatedSQL = generatedSQL s,
            performanceMetrics = \<lparr>responseTime = 0, cacheHit = False,
                                  resultsCount = lengthOr0 (sqlResults s)\<rparr>,
            sources = sources s\<rparr>"
      using processHybridQuery_merged [OF s] by (simp add: byType)
    from answerMiss_computed [OF this hk, of cacheKey] show ?thesis
      by (simp add: miss withResponseTime_def)
  qed
  from p1 p2 show ?thesis by blast
qed

text \<open>
  The amended claim C1 at the sample hybrid question, asked without and with the database
  id.
\<close>

theorem hybrid_result_follows_sql_leg_witness:
  "req_authorization reqHybridNoDb = Some bearer \<and> req_user reqHybridNoDb = Some alice
   \<and> (\<exists>k. generateCacheKey (req_query reqHybridNoDb)
             (templateString (req_databaseId reqHybridNoDb)) alice = Inr k
          \<and> checkCache (envAt 1000) sampleDb k = None)
   \<and> classifyQuery (toLowerCase (envAt 1000)) (req_query reqHybridNoDb) = Hybrid
   \<and> processSQLQuery (envAt 1000) sampleDb (req_query reqHybridNoDb)
        (req_databaseId reqHybridNoDb) alice = Inl (Error (js ''Database not found''))
   \<and> handler (envAt 1000) sampleDb reqHybridNoDb
        = (Failed500 (Error (js ''Database not found'')), sampleDb)
   \<and> rpcMatchDocuments (envAt 1000) sampleDb
        (generateEmbedding (envAt 1000) (req_query reqHybrid)) alice = None
   \<and> (\<exists>s. processSQLQuery (envAt 1000) sampleDb (req_query reqHybrid)
              (req_databaseId reqHybrid) alice = Inr s
          \<and> sqlResults s = Some mockEmployees
          \<and> fst (handler (envAt 1000) sampleDb reqHybrid)
             = Ok200 \<lparr>queryType = Hybrid, sqlResults = sqlResults s,
                      documentResults = Some [], generatedSQL = generatedSQL s,
                      performanceMetrics =
                        \<lparr>responseTime = now_end (envAt 1000) - now_start (envAt 1000),
                         cacheHit = False, resultsCount = lengthOr0 (sqlResults s)\<rparr>,
                      sources = sources s\<rparr>)"
proof -
  let ?E = "envAt 1000"
  obtain kA where kA: "generateCacheKey (req_query reqHybridNoDb)
        (templateString (req_databaseId reqHybridNoDb)) alice = Inr kA"
      and cA: "checkCache ?E sampleDb kA = None"
    using sample_miss [of reqHybridNoDb ?E]
    by (auto simp: req_sel latin1_samples templateString_latin1)
  obtain kB where kB: "generateCacheKey (req_query reqHybrid)
        (templateString (req_databaseId reqHybrid)) alice = Inr kB"
      and cB: "checkCache ?E sampleDb kB = None"
    using sample_miss [of reqHybrid ?E]
    by (auto simp: req_sel latin1_samples templateString_latin1)
  have hy: "classifyQuery (toLowerCase ?E) (req_query reqHybridNoDb) = Hybrid"
    "classifyQuery (toLowerCase ?E) (req_query reqHybrid) = Hybrid"
    by (simp_all add: env_sel req_sel classify_qHybrid)
  have sqlA: "processSQLQuery ?E sampleDb (req_query reqHybridNoDb)
      (req_databaseId reqHybridNoDb) alice = Inl (Error (js ''Database not found''))"
    unfolding req_sel
    by (rule processSQLQuery_not_found) (simp add: selectSchema_sample)
  have "\<not> isl (processSQLQuery ?E sampleDb (req_query reqHybrid)
      (req_databaseId reqHybrid) alice)"
    unfolding req_sel
    by (rule processSQLQuery_found) (simp_all add: selectSchema_sample env_sel)
  then obtain s where s: "processSQLQuery ?E sampleDb (req_query reqHybrid)
      (req_databaseId reqHybrid) alice = Inr s"
    using not_isl_obtain by blast
  have rows: "sqlResults s = Some mockEmployees"
    using s
    by (auto simp: req_sel processSQLQuery_def awaited_def selectSchema_sample env_sel Let_def
        generateSQL_def executeSQL_def qHybrid_def asciiLower_def js_def countSQL_def avgSQL_def
        defaultSQL_def)
  have rpc: "rpcMatchDocuments ?E sampleDb (generateEmbedding ?E (req_query reqHybrid)) alice
      = None"
    by (rule rpcMatchDocuments_None)
  show ?thesis
    using req_sel(9) req_sel(10) kA cA hy(1) sqlA rpc s rows
      hybrid_result_follows_sql_leg [OF req_sel(9) req_sel(10) kA cA hy(1),
        of "Error (js ''Database not found'')" s]
      hybrid_result_follows_sql_leg [OF req_sel(5) req_sel(6) kB cB hy(2),
        of "Error (js ''Database not found'')" s]
    by blast
qed

section \<open>Failures of the cache write and of the history append\<close>

lemma cacheResult_refused:
  "fault_cacheResult env = ErrorResult \<Longrightarrow> cacheResult env db k q r = db"
  by (simp add: cacheResult_def awaitedWrite_def)

lemma processByType_sample_howMany:
  assumes "toLowerCase env = asciiLower" "fault_schema env = NoFault"
  shows "\<not> isl (processByType env sampleDb qHowMany (Some db1) alice)"
  using assms
  by (simp add: processByType_sql classify_qHowMany processSQLQuery_found selectSchema_sample)

text \<open>
  Claim C2. For a query that the cache does not answer and whose computation succeeds, the
  handler returns the computed result, with its response time, whether the cache write and
  the history append are applied or fail.
\<close>

theorem write_failures_keep_result:
  assumes a: "req_authorization req = Some h"
    and u: "req_user req = Some userId"
    and k: "generateCacheKey (req_query req) (templateString (req_databaseId req)) userId
            = Inr cacheKey"
    and c: "checkCache env db cacheKey = None"
    and p: "processByType env db (req_query req) (req_databaseId req) userId = Inr computed"
  shows "\<forall>f1 f2. fst (handler (env\<lparr>fault_cacheResult := f1, fault_history := f2\<rparr>) db req)
           = Ok200 (withResponseTime env computed)"
proof (intro allI)
  fix f1 f2
  let ?env = "env\<lparr>fault_cacheResult := f1, fault_history := f2\<rparr>"
  have c': "checkCache ?env db cacheKey = None" using c by (simp add: checkCache_writes)
  have p': "processByType ?env db (req_query req) (req_databaseId req) userId = Inr computed"
    using p by (simp add: processByType_writes)
  from miss_response [OF a u k c' p']
  show "fst (handler ?env db req) = Ok200 (withResponseTime env computed)"
    by (auto simp: withResponseTime_writes)
qed

text \<open>
  Claim C2 at the sample question: the answer is the same when both writes are applied and
  when both fail, and in the second case the tables stay as they were.
\<close>

theorem write_failures_keep_result_witness:
  "req_authorization reqHowMany = Some bearer \<and> req_user reqHowMany = Some alice
   \<and> (\<exists>k. generateCacheKey (req_query reqHowMany)
             (templateString (req_databaseId reqHowMany)) alice = Inr k
          \<and> checkCache (envAt 1000) sampleDb k = None)
   \<and> (\<exists>computed. processByType (envAt 1000) sampleDb (req_query reqHowMany)
                    (req_databaseId reqHowMany) alice = Inr computed
          \<and> fst (handler (envAt 1000) sampleDb reqHowMany)
              = Ok200 (withResponseTime (envAt 1000) computed)
          \<and> fst (handler envWritesRefused sampleDb reqHowMany)
              = Ok200 (withResponseTime (envAt 1000) computed))
   \<and> snd (handler envWritesRefused sampleDb reqHowMany) = sampleDb"
proof -
  let ?E = "envAt 1000"
  obtain k where k: "generateCacheKey (req_query reqHowMany)
        (templateString (req_databaseId reqHowMany)) alice = Inr k"
      and c: "checkCache ?E sampleDb k = None"
      and c': "checkCache envWritesRefused sampleDb k = None"
    using sample_miss [of reqHowMany ?E] checkCache_empty [OF sampleDb_cache]
    by (auto simp: req_sel latin1_samples templateString_latin1)
  have "\<not> isl (processByType ?E sampleDb qHowMany (Some db1) alice)"
    by (rule processByType_sample_howMany) (simp_all add: env_sel)
  then obtain computed where p: "processByType ?E sampleDb (req_query reqHowMany)
        (req_databaseId reqHowMany) alice = Inr computed"
    unfolding req_sel using not_isl_obtain by blast
  have e1: "?E\<lparr>fault_cacheResult := NoFault, fault_history := NoFault\<rparr> = ?E"
    by (simp add: envAt_def)
  have e2: "?E\<lparr>fault_cacheResult := ErrorResult, fault_history := ErrorResult\<rparr>
      = envWritesRefused"
    by (simp add: envWritesRefused_def)
  note t = write_failures_keep_result [OF req_sel(1) req_sel(2) k c p]
  have r1: "fst (handler ?E sampleDb reqHowMany) = Ok200 (withResponseTime ?E computed)"
    using t [rule_format, of NoFault NoFault] by (simp only: e1)
  have r2: "fst (handler envWritesRefused sampleDb reqHowMany)
      = Ok200 (withResponseTime ?E computed)"
    using t [rule_format, of ErrorResult ErrorResult] by (simp only: e2)
  have "\<not> isl (processByType envWritesRefused sampleDb qHowMany (Some db1) alice)"
    by (rule processByType_sample_howMany) (simp_all add: env_sel)
  then obtain computed' where p': "processByType envWritesRefused sampleDb (req_query reqHowMany)
        (req_databaseId reqHowMany) alice = Inr computed'"
    unfolding req_sel using not_isl_obtain by blast
  have d: "snd (handler envWritesRefused sampleDb reqHowMany) = sampleDb"
    using miss_response [OF req_sel(1) req_sel(2) k c' p']
    by (auto simp: cacheResult_refused env_sel awaitedWrite_def)
  show ?thesis using req_sel(1) req_sel(2) k c p r1 r2 d by blast
qed

section \<open>The second call\<close>

lemma cacheResult_new:
  assumes "fault_cacheResult env = NoFault" and "query_cache db k = None"
  shows "query_cache (cacheResult env db k q r) k
         = Some \<lparr>cache_query_text = q, cache_results = r,
                 cache_expires_at = now_store env + 5 * 60 * 1000, cache_hit_count = 0,
                 cache_last_accessed = now_store env\<rparr>"
  using assms by (simp add: cacheResult_def awaitedWrite_def)

lemma cacheResult_history: "query_history (cacheResult env db k q r) = query_history db"
  by (cases "fault_cacheResult env"; cases "query_cache db k")
     (simp_all add: cacheResult_def awaitedWrite_def)

lemma awaitedWrite_history_cache:
  "query_cache (awaitedWrite f db (db\<lparr>query_history := hs\<rparr>)) = query_cache db"
  by (cases f) (simp_all add: awaitedWrite_def)

lemma checkCache_live:
  "query_cache db k = Some row \<Longrightarrow> fault_checkCache env = NoFault
   \<Longrightarrow> now_check env < cache_expires_at row
   \<Longrightarrow> checkCache env db k = Some (cache_results row)"
  by (simp add: checkCache_def awaited_def)

lemma first_sample_call:
  "\<exists>computed k hk. generateCacheKey (req_query reqHowMany)
        (templateString (req_databaseId reqHowMany)) alice = Inr k
     \<and> generateCacheKey (req_query reqHowMany) (js []) alice = Inr hk
     \<and> handler (envAt 1000) sampleDb reqHowMany
        = (Ok200 (withResponseTime (envAt 1000) computed), dbAsked)
     \<and> checkCache (envAt 2000) dbAsked k = Some (withResponseTime (envAt 1000) computed)
     \<and> query_history dbAsked
        = [historyRowOf alice qHowMany (withResponseTime (envAt 1000) computed) hk]"
proof -
  let ?E = "envAt 1000"
  obtain k where k: "generateCacheKey (req_query reqHowMany)
        (templateString (req_databaseId reqHowMany)) alice = Inr k"
      and c: "checkCache ?E sampleDb k = None"
    using sample_miss [of reqHowMany ?E]
    by (auto simp: req_sel latin1_samples templateString_latin1)
  have "\<not> isl (processByType ?E sampleDb qHowMany (Some db1) alice)"
    by (rule processByType_sample_howMany) (simp_all add: env_sel)
  then obtain computed where p: "processByType ?E sampleDb (req_query reqHowMany)
        (req_databaseId reqHowMany) alice = Inr computed"
    unfolding req_sel using not_isl_obtain by blast
  let ?r = "withResponseTime ?E computed"
  let ?dbA = "cacheResult ?E sampleDb k (req_query reqHowMany) ?r"
  obtain hk where hk: "generateCacheKey (req_query reqHowMany) (js []) alice = Inr hk"
      and h: "handler ?E sampleDb reqHowMany
        = (Ok200 ?r, awaitedWrite (fault_history ?E) ?dbA
            (?dbA\<lparr>query_history := query_history ?dbA
               @ [historyRowOf alice (req_query reqHowMany) ?r hk]\<rparr>))"
    using miss_response [OF req_sel(1) req_sel(2) k c p] by blast
  have d: "dbAsked = ?dbA\<lparr>query_history := query_history ?dbA
               @ [historyRowOf alice (req_query reqHowMany) ?r hk]\<rparr>"
    by (simp add: dbAsked_def h env_sel awaitedWrite_def)
  have row: "query_cache dbAsked k
      = Some \<lparr>cache_query_text = req_query reqHowMany, cache_results = ?r,
              cache_expires_at = now_store ?E + 5 * 60 * 1000, cache_hit_count = 0,
              cache_last_accessed = now_store ?E\<rparr>"
    using cacheResult_new [of ?E sampleDb k "req_query reqHowMany" ?r]
    by (simp add: d env_sel sampleDb_cache)
  have hit: "checkCache (envAt 2000) dbAsked k = Some ?r"
    using checkCache_live [OF row, of "envAt 2000"] by (simp add: env_sel)
  have hist: "query_history dbAsked = [historyRowOf alice qHowMany ?r hk]"
    by (simp add: d cacheResult_history req_sel) (simp add: sampleDb_def)
  have h': "handler ?E sampleDb reqHowMany = (Ok200 ?r, dbAsked)"
    using h by (simp add: dbAsked_def)
  from k hk h' hit hist show ?thesis by blast
qed

text \<open>
  Claim C5 has the second of two identical requests within the five minutes answered from
  the cache, with \<open>cacheHit\<close> true and the payload of the first answer. The client object
  has no member \<open>raw\<close>, so the second request finds the cached answer and then fails in
  \<open>updateCacheHit\<close>: the sample question, asked at time 1000 and again at time 2000, is
  answered the second time by the failure.
\<close>

theorem cache_hit_fails_without_raw:
  "isOk200 (fst (handler (envAt 1000) sampleDb reqHowMany))
   \<and> now_check (envAt 2000) < now_store (envAt 1000) + 5 * 60 * 1000
   \<and> handler (envAt 2000) dbAsked reqHowMany
       = (Failed500 (TypeError (js ''supabaseClient.raw is not a function'')), dbAsked)"
proof -
  obtain computed k where k: "generateCacheKey (req_query reqHowMany)
        (templateString (req_databaseId reqHowMany)) alice = Inr k"
      and h: "handler (envAt 1000) sampleDb reqHowMany
        = (Ok200 (withResponseTime (envAt 1000) computed), dbAsked)"
      and hit: "checkCache (envAt 2000) dbAsked k
        = Some (withResponseTime (envAt 1000) computed)"
    using first_sample_call by blast
  have ttl: "now_check (envAt 2000) < now_store (envAt 1000) + 5 * 60 * 1000"
    by (simp add: env_sel)
  have "handler (envAt 2000) dbAsked reqHowMany
       = (Failed500 (TypeError (js ''supabaseClient.raw is not a function'')), dbAsked)"
    by (rule handler_hit [OF req_sel(1) req_sel(2) k hit])
  with h ttl show ?thesis by (simp add: isOk200_def)
qed

section \<open>The query history\<close>








section \<open>The shape of results\<close>

lemma shapeOk_iff:
  "shapeOk r \<longleftrightarrow> (queryType r = Sql \<longrightarrow> documentResults r = None)
     \<and> (queryType r = Document \<longrightarrow> sqlResults r = None)
     \<and> (queryType r = Hybrid \<longrightarrow> sqlResults r \<noteq> None \<and> documentResults r \<noteq> None)"
  by (cases "queryType r") (simp_all add: shapeOk_def)

lemma processSQLQuery_shape:
  "processSQLQuery env db q d u = Inr r
   \<Longrightarrow> queryType r = Sql \<and> sqlResults r \<noteq> None \<and> documentResults r = None"
  by (auto simp: processSQLQuery_def Let_def split: option.splits)

lemma processByType_shape:
  assumes "processByType env db q d u = Inr r"
  shows "shapeOk r"
proof (cases "classifyQuery (toLowerCase env) q")
  case Sql
  with assms have "processSQLQuery env db q d u = Inr r" by (simp add: processByType_def)
  from processSQLQuery_shape [OF this] show ?thesis by (simp add: shapeOk_iff)
next
  case Document
  with assms show ?thesis
    by (auto simp: processByType_def processDocumentQuery_empty shapeOk_iff)
next
  case Hybrid
  with assms have h: "processHybridQuery env db q d u = Inr r" by (simp add: processByType_def)
  show ?thesis
  proof (cases "processSQLQuery env db q d u")
    case (Inl e)
    with h show ?thesis by (simp add: processHybridQuery_sql_error)
  next
    case (Inr s)
    with h processSQLQuery_shape [OF Inr] show ?thesis
      by (auto simp: processHybridQuery_merged shapeOk_iff)
  qed
qed

lemma shapeOk_withResponseTime: "shapeOk (withResponseTime env r) = shapeOk r"
  by (simp add: shapeOk_iff withResponseTime_def)

lemma cacheResult_shape:
  assumes "cacheShapeOk db" and "shapeOk r"
  shows "cacheShapeOk (cacheResult env db k q r)"
  using assms
  by (cases "fault_cacheResult env"; cases "query_cache db k")
     (auto simp: cacheResult_def awaitedWrite_def cacheShapeOk_def split: if_splits)

lemma awaitedWrite_history_shape:
  "cacheShapeOk db \<Longrightarrow> cacheShapeOk (awaitedWrite f db (db\<lparr>query_history := hs\<rparr>))"
  by (simp add: cacheShapeOk_def awaitedWrite_history_cache)

lemma handler_shape:
  assumes inv: "cacheShapeOk db"
  shows "(\<forall>r. fst (handler env db req) = Ok200 r \<longrightarrow> shapeOk r)
       \<and> cacheShapeOk (snd (handler env db req))"
proof (cases "req_authorization req")
  case None
  then show ?thesis using inv by (simp add: handler_no_header)
next
  case a: (Some h)
  show ?thesis
  proof (cases "req_user req")
    case None
    then show ?thesis using inv by (simp add: handler_unauthorized [OF a])
  next
    case u: (Some userId)
    show ?thesis
    proof (cases "generateCacheKey (req_query req) (templateString (req_databaseId req)) userId")
      case (Inl e)
      then show ?thesis using inv by (simp add: handler_key_error [OF a u])
    next
      case k: (Inr cacheKey)
      show ?thesis
      proof (cases "checkCache env db cacheKey")
        case (Some cached)
        then show ?thesis using inv by (simp add: handler_hit [OF a u k])
      next
        case c: None
        show ?thesis
        proof (cases "processByType env db (req_query req) (req_databaseId req) userId")
          case (Inl e)
          then show ?thesis
            using inv by (simp add: handler_miss [OF a u k c] answerMiss_compute_error)
        next
          case p: (Inr computed)
          have sh: "shapeOk (withResponseTime env computed)"
            using processByType_shape [OF p] by (simp add: shapeOk_withResponseTime)
          from miss_response [OF a u k c p] sh inv show ?thesis
            by (auto simp: awaitedWrite_history_shape cacheResult_shape)
        qed
      qed
    qed
  qed
qed

lemma run_shape:
  "cacheShapeOk db \<Longrightarrow> \<forall>resp \<in> set (fst (run db reqs)). \<forall>r. resp = Ok200 r \<longrightarrow> shapeOk r"
proof (induction reqs arbitrary: db)
  case Nil
  then show ?case by simp
next
  case (Cons a reqs)
  obtain env req where a: "a = (env, req)" by (cases a)
  obtain resp dbA where h: "handler env db req = (resp, dbA)" by (cases "handler env db req")
  obtain resps dbB where r: "run dbA reqs = (resps, dbB)" by (cases "run dbA reqs")
  have hs: "(\<forall>r. resp = Ok200 r \<longrightarrow> shapeOk r) \<and> cacheShapeOk dbA"
    using handler_shape [OF Cons.prems, of env req] h by simp
  then have "\<forall>x \<in> set resps. \<forall>r. x = Ok200 r \<longrightarrow> shapeOk r"
    using Cons.IH [of dbA] r by simp
  with hs show ?case by (simp add: a h r)
qed

lemma cacheShapeOk_empty: "query_cache db = Map.empty \<Longrightarrow> cacheShapeOk db"
  by (simp add: cacheShapeOk_def)

lemma run_two:
  "fst (run db [(e1, r1), (e2, r2)])
   = [fst (handler e1 db r1), fst (handler e2 (snd (handler e1 db r1)) r2)]"
  by (simp split: prod.splits)

lemma queryType_withResponseTime: "queryType (withResponseTime env r) = queryType r"
  by (simp add: withResponseTime_def)

lemma key_howMany:
  "generateCacheKey qHowMany db1 alice = Inr (js ''SG93IG1hbnkgZW1wbG95ZWVzIGRvIHdl'')"
  by (simp add: eval_key qHowMany_def db1_def alice_def)

lemma key_hybrid:
  "generateCacheKey qHybrid db1 alice = Inr (js ''RW1wbG95ZWVzIHdpdGggUHl0aG9uIHNr'')"
  by (simp add: eval_key qHybrid_def db1_def alice_def)

lemma keys_differ: "js ''RW1wbG95ZWVzIHdpdGggUHl0aG9uIHNr'' \<noteq> js ''SG93IG1hbnkgZW1wbG95ZWVzIGRvIHdl''"
  by (simp add: js_def)

lemma cacheResult_other_key:
  "k' \<noteq> k \<Longrightarrow> query_cache db k' = None \<Longrightarrow> query_cache (cacheResult env db k q r) k' = None"
  by (cases "fault_cacheResult env"; cases "query_cache db k")
     (simp_all add: cacheResult_def awaitedWrite_def)

lemma awaitedWrite_databases:
  "discovered_databases (awaitedWrite f db (db\<lparr>query_history := hs\<rparr>)) = discovered_databases db"
  by (cases f) (simp_all add: awaitedWrite_def)

lemma cacheResult_databases:
  "discovered_databases (cacheResult env db k q r) = discovered_databases db"
  by (cases "fault_cacheResult env"; cases "query_cache db k")
     (simp_all add: cacheResult_def awaitedWrite_def)

lemma sample_hybrid_then_howMany:
  "\<exists>r1 r2. fst (run sampleDb [(envAt 1000, reqHybrid), (envAt 2000, reqHowMany)])
         = [Ok200 r1, Ok200 r2]
     \<and> queryType r1 = Hybrid \<and> queryType r2 = Sql"
proof -
  let ?E = "envAt 1000"
  let ?F = "envAt 2000"
  let ?kH = "js ''RW1wbG95ZWVzIHdpdGggUHl0aG9uIHNr''"
  let ?kS = "js ''SG93IG1hbnkgZW1wbG95ZWVzIGRvIHdl''"
  have kH: "generateCacheKey (req_query reqHybrid) (templateString (req_databaseId reqHybrid))
      alice = Inr ?kH"
    by (simp add: req_sel templateString_def key_hybrid)
  have kS: "generateCacheKey (req_query reqHowMany) (templateString (req_databaseId reqHowMany))
      alice = Inr ?kS"
    by (simp add: req_sel templateString_def key_howMany)
  have cH: "checkCache ?E sampleDb ?kH = None" by (rule checkCache_empty [OF sampleDb_cache])
  have "\<not> isl (processSQLQuery ?E sampleDb qHybrid (Some db1) alice)"
    by (rule processSQLQuery_found) (simp_all add: selectSchema_sample env_sel)
  then obtain s where s: "processSQLQuery ?E sampleDb qHybrid (Some db1) alice = Inr s"
    using not_isl_obtain by blast
  let ?m = "\<lparr>queryType = Hybrid, sqlResults = sqlResults s, documentResults = Some [],
            generatedSQL = generatedSQL s,
            performanceMetrics = \<lparr>responseTime = 0, cacheHit = False,
                                  resultsCount = lengthOr0 (sqlResults s)\<rparr>,
            sources = sources s\<rparr>"
  have pH: "processByType ?E sampleDb (req_query reqHybrid) (req_databaseId reqHybrid) alice
      = Inr ?m"
    using processHybridQuery_merged [OF s]
    by (simp add: req_sel processByType_hybrid env_sel classify_qHybrid)
  let ?r1 = "withResponseTime ?E ?m"
  let ?dbA = "cacheResult ?E sampleDb ?kH (req_query reqHybrid) ?r1"
  obtain hk where h1: "handler ?E sampleDb reqHybrid
        = (Ok200 ?r1, awaitedWrite (fault_history ?E) ?dbA
            (?dbA\<lparr>query_history := query_history ?dbA
               @ [historyRowOf alice (req_query reqHybrid) ?r1 hk]\<rparr>))"
    using miss_response [OF req_sel(5) req_sel(6) kH cH pH] by blast
  let ?dbB = "snd (handler ?E sampleDb reqHybrid)"
  have "query_cache ?dbB ?kS = None"
    using cacheResult_other_key [of ?kS ?kH sampleDb ?E "req_query reqHybrid" ?r1] keys_differ
    by (simp add: h1 awaitedWrite_history_cache sampleDb_cache)
  then have cS: "checkCache ?F ?dbB ?kS = None"
    by (cases "fault_checkCache ?F") (simp_all add: checkCache_def awaited_def)
  have "discovered_databases ?dbB = discovered_databases sampleDb"
    by (simp add: h1 awaitedWrite_databases cacheResult_databases)
  then have "selectSchema ?dbB (Some db1) alice = selectSchema sampleDb (Some db1) alice"
    by (simp add: selectSchema_def)
  then have "\<not> isl (processSQLQuery ?F ?dbB qHowMany (Some db1) alice)"
    by (intro processSQLQuery_found [where s = sampleSchema])
       (simp_all add: env_sel selectSchema_sample)
  then obtain s2 where s2: "processSQLQuery ?F ?dbB qHowMany (Some db1) alice = Inr s2"
    using not_isl_obtain by blast
  have pS: "processByType ?F ?dbB (req_query reqHowMany) (req_databaseId reqHowMany) alice
      = Inr s2"
    using s2 by (simp add: req_sel processByType_sql env_sel classify_qHowMany)
  have h2: "fst (handler ?F ?dbB reqHowMany) = Ok200 (withResponseTime ?F s2)"
    using miss_response [OF req_sel(1) req_sel(2) kS cS pS] by auto
  have "fst (run sampleDb [(?E, reqHybrid), (?F, reqHowMany)])
      = [Ok200 ?r1, Ok200 (withResponseTime ?F s2)]"
    by (simp only: run_two h2) (simp add: h1)
  moreover have "queryType ?r1 = Hybrid" by (simp add: queryType_withResponseTime)
  moreover have "queryType (withResponseTime ?F s2) = Sql"
    using processSQLQuery_shape [OF s2] by (simp add: queryType_withResponseTime)
  ultimately show ?thesis by blast
qed

text \<open>
  Claim C8. Start from tables whose cached results have the shape of their query type, as
  an empty cache has, and handle any requests one after the other in any environments.
  Then every result that is returned has the shape of its type: for sql no document
  matches, for document no SQL rows, and for hybrid both SQL rows and document matches
  present.
\<close>

theorem results_satisfy_shape:
  assumes "cacheShapeOk db"
  shows "\<forall>resp \<in> set (fst (run db reqs)). \<forall>r. resp = Ok200 r \<longrightarrow>
           (queryType r = Sql \<longrightarrow> documentResults r = None)
         \<and> (queryType r = Document \<longrightarrow> sqlResults r = None)
         \<and> (queryType r = Hybrid \<longrightarrow> sqlResults r \<noteq> None \<and> documentResults r \<noteq> None)"
  using run_shape [OF assms, of reqs] by (simp add: shapeOk_iff)

text \<open>
  Claim C8 at two requests handled one after the other on the sample tables: the sample
  hybrid question and then the sample question of type sql.
\<close>

theorem results_satisfy_shape_witness:
  "cacheShapeOk sampleDb
   \<and> (\<exists>r. fst (run sampleDb [(envAt 1000, reqHybrid), (envAt 2000, reqHowMany)]) ! 0
            = Ok200 r
          \<and> queryType r = Hybrid \<and> sqlResults r \<noteq> None \<and> documentResults r \<noteq> None)
   \<and> (\<exists>r. fst (run sampleDb [(envAt 1000, reqHybrid), (envAt 2000, reqHowMany)]) ! 1
            = Ok200 r
          \<and> queryType r = Sql \<and> documentResults r = None)"
proof -
  let ?L = "[(envAt 1000, reqHybrid), (envAt 2000, reqHowMany)]"
  have a: "cacheShapeOk sampleDb" by (rule cacheShapeOk_empty) (rule sampleDb_cache)
  obtain r1 r2 where resps: "fst (run sampleDb ?L) = [Ok200 r1, Ok200 r2]"
      and qt: "queryType r1 = Hybrid" "queryType r2 = Sql"
    using sample_hybrid_then_howMany by blast
  note shape = results_satisfy_shape [OF a, of ?L, unfolded resps]
  have s1: "sqlResults r1 \<noteq> None \<and> documentResults r1 \<noteq> None"
    using shape qt(1) by simp
  have s2: "documentResults r2 = None"
    using shape qt(2) by simp
  have n: "fst (run sampleDb ?L) ! 0 = Ok200 r1" "fst (run sampleDb ?L) ! 1 = Ok200 r2"
    unfolding resps by simp_all
  show ?thesis using a qt s1 s2 n by blast
qed

end
